theory Spec2Isabelle
  imports Main "HOL-Library.AList"
begin

section \<open>JavaScript values and strings\<close>

text \<open>
  The repository is a set of Node.js Lambda handlers around a translator
  (\<^verbatim>\<open>src/utils/mapper.js\<close>). Strings are modelled as HOL strings whose characters
  stand for the code units U+0000 to U+00FF; the accented letters of the Spanish
  messages and field names are written with their code (\<open>CHR 0xF1\<close> is n with tilde).
  Numbers are carried by their integer value: no function modelled here computes
  with a fraction.

  Values that flow through the translator are of type \<open>jsval\<close>. Besides the
  usual values it has the two kinds of built-in value that a property read on an
  object literal can return through the prototype chain: a native function
  (\<open>JFun\<close>, with its name) and \<open>Object.prototype\<close> itself (\<open>JProto\<close>).
  An object is the list of its own enumerable properties, in the order in which
  \<^verbatim>\<open>Object.entries\<close> lists them; its keys are distinct.
\<close>

datatype jsval =
    JUndefined
  | JNull
  | JBool bool
  | JNum int
  | JStr string
  | JArr "jsval list"
  | JObj "(string \<times> jsval) list"
  | JFun string
  | JProto

fun truthy :: "jsval \<Rightarrow> bool" where
  "truthy JUndefined = False"
| "truthy JNull = False"
| "truthy (JBool b) = b"
| "truthy (JNum n) = (n \<noteq> 0)"
| "truthy (JStr s) = (s \<noteq> [])"
| "truthy (JArr xs) = True"
| "truthy (JObj kvs) = True"
| "truthy (JFun f) = True"
| "truthy JProto = True"

fun typeof :: "jsval \<Rightarrow> string" where
  "typeof JUndefined = ''undefined''"
| "typeof JNull = ''object''"
| "typeof (JBool b) = ''boolean''"
| "typeof (JNum n) = ''number''"
| "typeof (JStr s) = ''string''"
| "typeof (JArr xs) = ''object''"
| "typeof (JObj kvs) = ''object''"
| "typeof (JFun f) = ''function''"
| "typeof JProto = ''object''"

text \<open>\<^verbatim>\<open>a || b\<close>\<close>

definition jsOr :: "jsval \<Rightarrow> jsval \<Rightarrow> jsval" where
  "jsOr a b = (if truthy a then a else b)"

text \<open>
  \<^verbatim>\<open>String.prototype.toLowerCase\<close> and \<^verbatim>\<open>toUpperCase\<close> on the code units of the
  model. Lower-casing moves A-Z and the Latin-1 capitals (U+00C0 to U+00DE without
  the multiplication sign) up by 32. Upper-casing moves a-z and the Latin-1 small
  letters (U+00E0 to U+00FE without the division sign) down by 32 and turns the sharp
  s (U+00DF) into \<^verbatim>\<open>SS\<close>; the capitals of the micro sign (U+00B5) and of y with
  diaeresis (U+00FF) are no code units of the model, and \<open>toUpperCase\<close> is \<open>None\<close> for
  a string that holds one of them.
\<close>

definition toLowerChar :: "char \<Rightarrow> char" where
  "toLowerChar c =
     (let n = (of_char c :: nat) in
      if (65 \<le> n \<and> n \<le> 90) \<or> (192 \<le> n \<and> n \<le> 222 \<and> n \<noteq> 215)
      then char_of (n + 32) else c)"

definition toLowerCase :: "string \<Rightarrow> string" where
  "toLowerCase s = map toLowerChar s"

definition toUpperUnits :: "char \<Rightarrow> string option" where
  "toUpperUnits c =
     (let n = (of_char c :: nat) in
      if (97 \<le> n \<and> n \<le> 122) \<or> (224 \<le> n \<and> n \<le> 254 \<and> n \<noteq> 247) then Some [char_of (n - 32)]
      else if n = 223 then Some ''SS''
      else if n = 181 \<or> n = 255 then None
      else Some [c])"

fun toUpperCase :: "string \<Rightarrow> string option" where
  "toUpperCase [] = Some []"
| "toUpperCase (c # cs) =
     (case toUpperUnits c of
        None \<Rightarrow> None
      | Some u \<Rightarrow> (case toUpperCase cs of None \<Rightarrow> None | Some r \<Rightarrow> Some (u @ r)))"

text \<open>Decimal rendering of an array index, as \<^verbatim>\<open>Object.entries\<close> names it.\<close>

fun showNat :: "nat \<Rightarrow> string" where
  "showNat n =
     (if n < 10 then [char_of (48 + n)]
      else showNat (n div 10) @ [char_of (48 + n mod 10)])"

declare showNat.simps [simp del]

definition showInt :: "int \<Rightarrow> string" where
  "showInt n = (if n < 0 then CHR ''-'' # showNat (nat (- n)) else showNat (nat n))"

text \<open>\<^verbatim>\<open>xs.join(sep)\<close> on strings.\<close>

fun joinWith :: "string \<Rightarrow> string list \<Rightarrow> string" where
  "joinWith sep [] = []"
| "joinWith sep [x] = x"
| "joinWith sep (x # y # ys) = x @ sep @ joinWith sep (y # ys)"

section \<open>Property access on object literals\<close>

text \<open>
  \<^verbatim>\<open>obj[key]\<close> on an object created by a literal: the own property when there is
  one, otherwise the property inherited from \<open>Object.prototype\<close>, otherwise
  \<^verbatim>\<open>undefined\<close>. \<open>Object.prototype\<close> has twelve properties; \<^verbatim>\<open>constructor\<close> is the
  function \<^verbatim>\<open>Object\<close>, \<^verbatim>\<open>__proto__\<close> is an accessor that yields the prototype of
  the receiver (for an object literal, \<open>Object.prototype\<close>), the others are
  methods.
\<close>

definition objectPrototypeMethods :: "string list" where
  "objectPrototypeMethods =
     [''__defineGetter__'', ''__defineSetter__'', ''hasOwnProperty'',
      ''__lookupGetter__'', ''__lookupSetter__'', ''isPrototypeOf'',
      ''propertyIsEnumerable'', ''toString'', ''valueOf'', ''toLocaleString'']"

definition inherited :: "string \<Rightarrow> jsval option" where
  "inherited k =
     (if k = ''constructor'' then Some (JFun ''Object'')
      else if k = ''__proto__'' then Some JProto
      else if k \<in> set objectPrototypeMethods then Some (JFun k)
      else None)"

definition getProp :: "(string \<times> jsval) list \<Rightarrow> string \<Rightarrow> jsval" where
  "getProp obj k =
     (case map_of obj k of
        Some v \<Rightarrow> v
      | None \<Rightarrow> (case inherited k of Some v \<Rightarrow> v | None \<Rightarrow> JUndefined))"

text \<open>
  \<^verbatim>\<open>obj[key] = v\<close> on an object that started as \<^verbatim>\<open>{}\<close>: an existing own property
  keeps its place and takes the new value, a new one is added last.
\<close>

definition setProp :: "(string \<times> jsval) list \<Rightarrow> string \<Rightarrow> jsval \<Rightarrow> (string \<times> jsval) list" where
  "setProp obj k v = AList.update k v obj"

text \<open>
  The string under which a value is used as a property key. A native function
  prints as its source text, \<open>Object.prototype\<close> as \<^verbatim>\<open>[object Object]\<close>, an array
  as its elements joined by commas. The translator only uses as keys the results of
  \<open>translateFieldName\<close> on a string, which are strings, native functions or
  \<open>Object.prototype\<close> (lemma \<open>translateFieldName_cases\<close>), so the equations for
  arrays and objects, given for those that do not redefine \<^verbatim>\<open>toString\<close>, are never
  reached.
\<close>

fun toPropertyKey :: "jsval \<Rightarrow> string" where
  "toPropertyKey (JStr s) = s"
| "toPropertyKey (JFun f) = ''function '' @ f @ ''() { [native code] }''"
| "toPropertyKey JProto = ''[object Object]''"
| "toPropertyKey JUndefined = ''undefined''"
| "toPropertyKey JNull = ''null''"
| "toPropertyKey (JBool b) = (if b then ''true'' else ''false'')"
| "toPropertyKey (JNum n) = showInt n"
| "toPropertyKey (JArr xs) =
     joinWith '','' (map (\<lambda>x. if x = JUndefined \<or> x = JNull then [] else toPropertyKey x) xs)"
| "toPropertyKey (JObj kvs) = ''[object Object]''"

section \<open>The translator (src/utils/mapper.js)\<close>

definition PERSONAJE_FIELD_MAP :: "(string \<times> jsval) list" where
  "PERSONAJE_FIELD_MAP =
     [(''name'', JStr ''nombre''),
      (''height'', JStr ''altura''),
      (''mass'', JStr ''masa''),
      (''hair_color'', JStr ''color_de_cabello''),
      (''skin_color'', JStr ''color_de_piel''),
      (''eye_color'', JStr ''color_de_ojos''),
      (''birth_year'', JStr (''a'' @ [CHR 0xF1] @ ''o_de_nacimiento'')),
      (''gender'', JStr ''genero''),
      (''homeworld'', JStr ''planeta_natal''),
      (''films'', JStr ''peliculas''),
      (''species'', JStr ''especies''),
      (''vehicles'', JStr ''vehiculos''),
      (''starships'', JStr ''naves_espaciales''),
      (''created'', JStr ''creado''),
      (''edited'', JStr ''editado''),
      (''url'', JStr ''url'')]"

definition VALUE_TRANSLATIONS :: "(string \<times> jsval) list" where
  "VALUE_TRANSLATIONS =
     [(''male'', JStr ''masculino''),
      (''female'', JStr ''femenino''),
      (''n/a'', JStr ''n/a''),
      (''none'', JStr ''ninguno''),
      (''hermaphrodite'', JStr ''hermafrodita''),
      (''blue'', JStr ''azul''),
      (''blond'', JStr ''rubio (testt)''),
      (''unknown'', JStr ''desconocido'')]"

text \<open>\<^verbatim>\<open>PERSONAJE_FIELD_MAP[fieldName] || fieldName\<close>, for a string.\<close>

definition translateFieldName :: "string \<Rightarrow> jsval" where
  "translateFieldName fieldName = jsOr (getProp PERSONAJE_FIELD_MAP fieldName) (JStr fieldName)"

definition translateValue :: "jsval \<Rightarrow> jsval" where
  "translateValue v =
     (case v of
        JStr s \<Rightarrow> (let lowerValue = toLowerCase s in jsOr (getProp VALUE_TRANSLATIONS lowerValue) v)
      | _ \<Rightarrow> v)"

text \<open>
  \<^verbatim>\<open>Object.entries\<close>: the own enumerable properties. An array lists its elements
  under their indices; \<open>Object.prototype\<close> has no enumerable property.
\<close>

fun entries :: "jsval \<Rightarrow> (string \<times> jsval) list" where
  "entries (JObj kvs) = kvs"
| "entries (JArr xs) = zip (map showNat [0..<length xs]) xs"
| "entries v = []"

text \<open>One turn of the loop of \<open>mapPersonajeToEspanol\<close>.\<close>

definition mapEntry :: "(string \<times> jsval) list \<Rightarrow> string \<times> jsval \<Rightarrow> (string \<times> jsval) list" where
  "mapEntry personajeEnEspanol kv =
     (case kv of (campoIngles, valor) \<Rightarrow>
        (let campoEspanol = translateFieldName campoIngles in
         case valor of
           JArr xs \<Rightarrow> setProp personajeEnEspanol (toPropertyKey campoEspanol) (JArr (map translateValue xs))
         | _ \<Rightarrow> setProp personajeEnEspanol (toPropertyKey campoEspanol) (translateValue valor)))"

definition mapPersonajeToEspanol :: "jsval \<Rightarrow> jsval" where
  "mapPersonajeToEspanol personajeEnIngles =
     (if \<not> truthy personajeEnIngles \<or> typeof personajeEnIngles \<noteq> ''object'' then JNull
      else JObj (foldl mapEntry [] (entries personajeEnIngles)))"

text \<open>\<^verbatim>\<open>personajes.map(mapPersonajeToEspanol).filter(Boolean)\<close>\<close>

definition mapPersonajesToEspanol :: "jsval \<Rightarrow> jsval" where
  "mapPersonajesToEspanol personajes =
     (case personajes of
        JArr xs \<Rightarrow> JArr (filter truthy (map mapPersonajeToEspanol xs))
      | _ \<Rightarrow> JArr [])"

subsection \<open>extractIdFromUrl\<close>

text \<open>
  The regular expression \<^verbatim>\<open>/\/(\d+)\/?$/\<close>, run as a backtracking matcher runs it:
  the start positions are tried from the left; at a start position a slash is
  read, then as many digits as there are (giving digits back one at a time when
  the rest fails), then an optional slash, then the end of the string.
\<close>

definition isDigit :: "char \<Rightarrow> bool" where
  "isDigit c = (48 \<le> (of_char c :: nat) \<and> (of_char c :: nat) \<le> 57)"

definition matchOptSlashEnd :: "string \<Rightarrow> bool" where
  "matchOptSlashEnd r =
     ((case r of c # r' \<Rightarrow> c = CHR ''/'' \<and> r' = [] | [] \<Rightarrow> False) \<or> r = [])"

fun matchDigits :: "nat \<Rightarrow> string \<Rightarrow> string option" where
  "matchDigits 0 r = None"
| "matchDigits (Suc n) r =
     (if matchOptSlashEnd (drop (Suc n) r) then Some (take (Suc n) r) else matchDigits n r)"

definition matchAt :: "string \<Rightarrow> string option" where
  "matchAt t =
     (case t of
        [] \<Rightarrow> None
      | c # r \<Rightarrow> if c = CHR ''/'' then matchDigits (length (takeWhile isDigit r)) r else None)"

fun regexSearch :: "string \<Rightarrow> string option" where
  "regexSearch [] = None"
| "regexSearch (c # r) =
     (case matchAt (c # r) of Some d \<Rightarrow> Some d | None \<Rightarrow> regexSearch r)"

definition extractIdFromUrl :: "jsval \<Rightarrow> jsval" where
  "extractIdFromUrl url =
     (if \<not> truthy url \<or> typeof url \<noteq> ''string'' then JNull
      else case url of
        JStr s \<Rightarrow> (case regexSearch s of Some d \<Rightarrow> JStr d | None \<Rightarrow> JNull)
      | _ \<Rightarrow> JNull)"

section \<open>Parsed JSON data and uncaught errors\<close>

text \<open>
  What \<^verbatim>\<open>JSON.parse\<close> returns, and what the store keeps, is of type \<open>json\<close>:
  it holds no function and no \<^verbatim>\<open>undefined\<close>. A record is the list of its entries.
  A property read \<^verbatim>\<open>personaje[campo]\<close> is \<open>map_of personaje campo\<close>, with \<open>None\<close> for
  \<^verbatim>\<open>undefined\<close>: the handlers only read the fixed names \<^verbatim>\<open>nombre\<close>, \<^verbatim>\<open>altura\<close>, ...,
  \<^verbatim>\<open>id\<close>, none of which \<open>Object.prototype\<close> defines.
\<close>

datatype json =
    JsonNull
  | JsonBool bool
  | JsonNum int
  | JsonStr string
  | JsonArr "json list"
  | JsonObj "(string \<times> json) list"

type_synonym item = "(string \<times> json) list"

text \<open>A thrown JavaScript error, with its message.\<close>

datatype jserror = Error string | TypeError string

fun errorMessage :: "jserror \<Rightarrow> string" where
  "errorMessage (Error m) = m"
| "errorMessage (TypeError m) = m"

fun jsonTruthy :: "json option \<Rightarrow> bool" where
  "jsonTruthy None = False"
| "jsonTruthy (Some JsonNull) = False"
| "jsonTruthy (Some (JsonBool b)) = b"
| "jsonTruthy (Some (JsonNum n)) = (n \<noteq> 0)"
| "jsonTruthy (Some (JsonStr s)) = (s \<noteq> [])"
| "jsonTruthy (Some (JsonArr xs)) = True"
| "jsonTruthy (Some (JsonObj kvs)) = True"

text \<open>\<^verbatim>\<open>typeof x === 'string'\<close>, \<^verbatim>\<open>typeof x === 'object'\<close> and \<^verbatim>\<open>Array.isArray(x)\<close>.\<close>

fun isString :: "json option \<Rightarrow> bool" where
  "isString (Some (JsonStr s)) = True"
| "isString v = False"

fun isObjectType :: "json option \<Rightarrow> bool" where
  "isObjectType (Some JsonNull) = True"
| "isObjectType (Some (JsonArr xs)) = True"
| "isObjectType (Some (JsonObj kvs)) = True"
| "isObjectType v = False"

fun isArray :: "json option \<Rightarrow> bool" where
  "isArray (Some (JsonArr xs)) = True"
| "isArray v = False"

subsection \<open>Strings: trim, substring search, numerals\<close>

text \<open>
  The white space and line terminators of the model's code units: TAB, LF, VT, FF,
  CR, SP and the no-break space.
\<close>

definition isWhiteSpace :: "char \<Rightarrow> bool" where
  "isWhiteSpace c = ((of_char c :: nat) \<in> set [9, 10, 11, 12, 13, 32, 160])"

definition trim :: "string \<Rightarrow> string" where
  "trim s = rev (dropWhile isWhiteSpace (rev (dropWhile isWhiteSpace s)))"

definition startsWith :: "string \<Rightarrow> string \<Rightarrow> bool" where
  "startsWith s p = (take (length p) s = p)"

text \<open>\<^verbatim>\<open>haystack.includes(needle)\<close>\<close>

fun strIncludes :: "string \<Rightarrow> string \<Rightarrow> bool" where
  "strIncludes [] needle = (needle = [])"
| "strIncludes (c # cs) needle = (startsWith (c # cs) needle \<or> strIncludes cs needle)"

definition quoted :: "string \<Rightarrow> string" where
  "quoted s = CHR 0x22 # s @ [CHR 0x22]"

text \<open>
  \<^verbatim>\<open>isNaN(s)\<close> for a string converts it with the grammar of string numeric
  literals: white space is stripped on both sides; the empty string is the number 0;
  otherwise the text is an unsigned binary, octal or hexadecimal integer with its
  prefix, or an optionally signed \<^verbatim>\<open>Infinity\<close> or decimal literal with optional
  fraction and exponent. \<open>isStrNumeric\<close> says whether the conversion gives a number.
\<close>

definition isHexDigit :: "char \<Rightarrow> bool" where
  "isHexDigit c =
     (let n = (of_char c :: nat) in (48 \<le> n \<and> n \<le> 57) \<or> (65 \<le> n \<and> n \<le> 70) \<or> (97 \<le> n \<and> n \<le> 102))"

definition isOctalDigit :: "char \<Rightarrow> bool" where
  "isOctalDigit c = (48 \<le> (of_char c :: nat) \<and> (of_char c :: nat) \<le> 55)"

definition isBinaryDigit :: "char \<Rightarrow> bool" where
  "isBinaryDigit c = (c = CHR ''0'' \<or> c = CHR ''1'')"

definition isExponentPartOpt :: "string \<Rightarrow> bool" where
  "isExponentPartOpt r =
     (case r of
        [] \<Rightarrow> True
      | e # r' \<Rightarrow>
          (e = CHR ''e'' \<or> e = CHR ''E'') \<and>
          (let ds = (case r' of [] \<Rightarrow> [] | c # r'' \<Rightarrow> if c = CHR ''+'' \<or> c = CHR ''-'' then r'' else r')
           in ds \<noteq> [] \<and> list_all isDigit ds))"

definition isUnsignedDecimal :: "string \<Rightarrow> bool" where
  "isUnsignedDecimal u =
     (u = ''Infinity'' \<or>
      (let ip = takeWhile isDigit u; r1 = dropWhile isDigit u in
       case r1 of
         [] \<Rightarrow> ip \<noteq> []
       | c # r2 \<Rightarrow>
           if c = CHR ''.'' then
             (let fp = takeWhile isDigit r2; r3 = dropWhile isDigit r2
              in (ip \<noteq> [] \<or> fp \<noteq> []) \<and> isExponentPartOpt r3)
           else ip \<noteq> [] \<and> isExponentPartOpt r1))"

definition isNonDecimalInteger :: "string \<Rightarrow> bool" where
  "isNonDecimalInteger t =
     (case t of
        z # x # ds \<Rightarrow>
          z = CHR ''0'' \<and> ds \<noteq> [] \<and>
          ((x = CHR ''x'' \<or> x = CHR ''X'') \<and> list_all isHexDigit ds \<or>
           (x = CHR ''o'' \<or> x = CHR ''O'') \<and> list_all isOctalDigit ds \<or>
           (x = CHR ''b'' \<or> x = CHR ''B'') \<and> list_all isBinaryDigit ds)
      | _ \<Rightarrow> False)"

definition isStrNumeric :: "string \<Rightarrow> bool" where
  "isStrNumeric s =
     (let t = trim s in
      t = [] \<or> isNonDecimalInteger t \<or>
      (case t of
         c # u \<Rightarrow> if c = CHR ''+'' \<or> c = CHR ''-'' then isUnsignedDecimal u else isUnsignedDecimal t
       | [] \<Rightarrow> False))"

text \<open>
  \<^verbatim>\<open>parseInt(s, 10)\<close> and \<^verbatim>\<open>parseInt(s)\<close>: leading white space is dropped, then a
  sign, then (without a radix only) a prefix \<^verbatim>\<open>0x\<close> that selects radix 16; the value is
  that of the longest run of digits that follows, and \<open>None\<close> (\<^verbatim>\<open>NaN\<close>) when the run
  is empty.
\<close>

definition digitValue :: "char \<Rightarrow> nat" where
  "digitValue c =
     (let n = (of_char c :: nat) in
      if 48 \<le> n \<and> n \<le> 57 then n - 48
      else if 65 \<le> n \<and> n \<le> 70 then n - 55
      else n - 87)"

definition digitsValue :: "nat \<Rightarrow> string \<Rightarrow> int" where
  "digitsValue radix ds = int (foldl (\<lambda>acc c. acc * radix + digitValue c) 0 ds)"

definition parseIntRadix :: "bool \<Rightarrow> string \<Rightarrow> int option" where
  "parseIntRadix stripPrefix inputString =
     (let s0 = dropWhile isWhiteSpace inputString;
          sign = (if startsWith s0 ''-'' then - 1 else 1 :: int);
          s1 = (if startsWith s0 ''+'' \<or> startsWith s0 ''-'' then drop 1 s0 else s0);
          hex = (stripPrefix \<and> (startsWith s1 ''0x'' \<or> startsWith s1 ''0X''));
          s2 = (if hex then drop 2 s1 else s1);
          z = takeWhile (if hex then isHexDigit else isDigit) s2
      in if z = [] then None else Some (sign * digitsValue (if hex then 16 else 10) z))"

definition parseInt10 :: "string \<Rightarrow> int option" where
  "parseInt10 s = parseIntRadix False s"

definition parseInt :: "string \<Rightarrow> int option" where
  "parseInt s = parseIntRadix True s"

subsection \<open>Conversion of parsed data to a string and to a number\<close>

text \<open>
  \<^verbatim>\<open>isNaN(x)\<close> on an array or an object first converts it to a primitive. An
  array prints as its elements joined by commas, \<^verbatim>\<open>null\<close> printing as nothing. An
  object prints as \<^verbatim>\<open>[object Object]\<close>, unless the data gave it an own
  \<^verbatim>\<open>toString\<close> property: that value is not a function, \<^verbatim>\<open>valueOf\<close> returns no
  primitive either, and the conversion throws a TypeError. A number is printed in
  decimal, which is what the engine prints below 10^21.
\<close>

fun jsonToString :: "json \<Rightarrow> jserror + string"
  and joinElements :: "json list \<Rightarrow> jserror + string" where
  "jsonToString JsonNull = Inr ''null''"
| "jsonToString (JsonBool b) = Inr (if b then ''true'' else ''false'')"
| "jsonToString (JsonNum n) = Inr (showInt n)"
| "jsonToString (JsonStr s) = Inr s"
| "jsonToString (JsonArr xs) = joinElements xs"
| "jsonToString (JsonObj kvs) =
     (if map_of kvs ''toString'' \<noteq> None
      then Inl (TypeError ''Cannot convert object to primitive value'')
      else Inr ''[object Object]'')"
| "joinElements [] = Inr []"
| "joinElements (x # xs) =
     (case (if x = JsonNull then Inr [] else jsonToString x) of
        Inl e \<Rightarrow> Inl e
      | Inr s \<Rightarrow>
          (if xs = [] then Inr s
           else case joinElements xs of Inl e \<Rightarrow> Inl e | Inr r \<Rightarrow> Inr (s @ '','' @ r)))"

fun isNaN :: "json option \<Rightarrow> jserror + bool" where
  "isNaN None = Inr True"
| "isNaN (Some JsonNull) = Inr False"
| "isNaN (Some (JsonBool b)) = Inr False"
| "isNaN (Some (JsonNum n)) = Inr False"
| "isNaN (Some (JsonStr s)) = Inr (\<not> isStrNumeric s)"
| "isNaN (Some v) = (case jsonToString v of Inl e \<Rightarrow> Inl e | Inr s \<Rightarrow> Inr (\<not> isStrNumeric s))"

section \<open>Responses and the record store\<close>

text \<open>
  \<^verbatim>\<open>buildResponse\<close> is defined alike in each handler file. The body is kept as the
  object handed to \<^verbatim>\<open>JSON.stringify\<close>, entry by entry. \<open>nodeEnv\<close> stands for
  \<^verbatim>\<open>process.env.NODE_ENV\<close> and \<open>tabla\<close> for \<^verbatim>\<open>process.env.PERSONAJES_TABLE\<close>.
\<close>

record 'v response =
  statusCode :: nat
  headers :: "(string \<times> 'v) list"
  body :: "(string \<times> 'v) list"

definition buildResponse :: "nat \<Rightarrow> item \<Rightarrow> json response" where
  "buildResponse status b =
     \<lparr>statusCode = status,
      headers = [(''Content-Type'', JsonStr ''application/json''),
                 (''Access-Control-Allow-Origin'', JsonStr ''*''),
                 (''Access-Control-Allow-Credentials'', JsonBool True)],
      body = b\<rparr>"

definition detallesError :: "string option \<Rightarrow> jserror \<Rightarrow> string \<Rightarrow> json" where
  "detallesError nodeEnv e otherwise =
     JsonStr (if nodeEnv = Some ''development'' then errorMessage e else otherwise)"

text \<open>
  The AWS client is outside the repository: a call either resolves or rejects with an
  error that carries a code and a message.
\<close>

datatype awsError = AwsError (code: string) (message: string)

definition tablaFalta :: "string option \<Rightarrow> bool" where
  "tablaFalta tabla = (tabla = None \<or> tabla = Some [])"

definition errorTablaNoConfigurada :: string where
  "errorTablaNoConfigurada =
     ''La variable de entorno PERSONAJES_TABLE no est'' @ [CHR 0xE1] @ '' configurada''"

text \<open>A template literal prints \<^verbatim>\<open>undefined\<close> for a missing property.\<close>

definition plantilla :: "json option \<Rightarrow> jserror + string" where
  "plantilla v = (case v of None \<Rightarrow> Inr ''undefined'' | Some x \<Rightarrow> jsonToString x)"

subsection \<open>src/services/dynamoDBService.js\<close>

text \<open>
  Each service function runs in a \<^verbatim>\<open>try\<close> whose \<^verbatim>\<open>catch\<close> rethrows every error,
  the missing-table error included, under a new message. \<open>guardarPersonaje\<close> also
  returns the records it handed to \<^verbatim>\<open>dynamoDB.put\<close>, \<open>listarPersonajes\<close> the
  limits it handed to \<^verbatim>\<open>dynamoDB.scan\<close>.
\<close>

definition guardarPersonaje ::
  "string option \<Rightarrow> (item \<Rightarrow> awsError option) \<Rightarrow> item \<Rightarrow> (jserror + item) \<times> item list" where
  "guardarPersonaje tabla put personaje =
     (let tried =
        (if tablaFalta tabla then (Inl (None, errorTablaNoConfigurada), [])
         else case put personaje of
                Some e \<Rightarrow> (Inl (Some (code e), message e), [personaje])
              | None \<Rightarrow> (Inr personaje, [personaje]))
      in case fst tried of
           Inr guardado \<Rightarrow> (Inr guardado, snd tried)
         | Inl (c, m) \<Rightarrow>
             (if c = Some ''ConditionalCheckFailedException''
              then (case plantilla (map_of personaje ''id'') of
                      Inl e \<Rightarrow> (Inl e, snd tried)
                    | Inr i \<Rightarrow> (Inl (Error (''Ya existe un personaje con el ID '' @ i)), snd tried))
              else (Inl (Error (''Error al guardar en DynamoDB: '' @ m)), snd tried)))"

definition obtenerPersonajePorId ::
  "string option \<Rightarrow> (string \<Rightarrow> awsError + item option) \<Rightarrow> string \<Rightarrow> jserror + item option" where
  "obtenerPersonajePorId tabla get ident =
     (let tried =
        (if tablaFalta tabla then Inl errorTablaNoConfigurada
         else case get ident of
                Inl e \<Rightarrow> Inl (message e)
              | Inr resultadoItem \<Rightarrow>
                  (if \<not> jsonTruthy (map_option JsonObj resultadoItem) then Inr None
                   else Inr resultadoItem))
      in case tried of
           Inr r \<Rightarrow> Inr r
         | Inl m \<Rightarrow> Inl (Error (''Error al consultar DynamoDB: '' @ m)))"

definition listarPersonajes ::
  "string option \<Rightarrow> (int \<Rightarrow> awsError + item list option) \<Rightarrow> int
     \<Rightarrow> (jserror + item list) \<times> int list" where
  "listarPersonajes tabla scan limite =
     (let tried =
        (if tablaFalta tabla then (Inl errorTablaNoConfigurada, [])
         else case scan limite of
                Inl e \<Rightarrow> (Inl (message e), [limite])
              | Inr None \<Rightarrow>
                  (Inl ''Cannot read properties of undefined (reading 'length')'', [limite])
              | Inr (Some resultadoItems) \<Rightarrow> (Inr resultadoItems, [limite]))
      in case fst tried of
           Inr r \<Rightarrow> (Inr r, snd tried)
         | Inl m \<Rightarrow> (Inl (Error (''Error al consultar DynamoDB: '' @ m)), snd tried))"

section \<open>The create handler (src/handlers/crearEntidad.js)\<close>

datatype cuerpo = CuerpoInvalido string | CuerpoValido item

text \<open>
  \<open>parse\<close> stands for \<^verbatim>\<open>JSON.parse\<close>, with \<open>None\<close> when it throws. The request body is
  a string or absent.
\<close>

definition cuerpoVacio :: string where
  "cuerpoVacio =
     ''El cuerpo de la petici'' @ [CHR 0xF3] @ ''n est'' @ [CHR 0xE1] @ '' vac'' @ [CHR 0xED] @ ''o''"

definition cuerpoNoObjeto :: string where
  "cuerpoNoObjeto = ''El cuerpo debe ser un objeto JSON v'' @ [CHR 0xE1] @ ''lido''"

definition cuerpoNoJson :: string where
  "cuerpoNoJson =
     ''El cuerpo de la petici'' @ [CHR 0xF3] @ ''n no es un JSON v'' @ [CHR 0xE1] @ ''lido''"

definition validarCuerpoRequest :: "(string \<Rightarrow> json option) \<Rightarrow> string option \<Rightarrow> cuerpo" where
  "validarCuerpoRequest parse b =
     (case b of
        None \<Rightarrow> CuerpoInvalido cuerpoVacio
      | Some texto \<Rightarrow>
          (if texto = [] then CuerpoInvalido cuerpoVacio
           else case parse texto of
                  None \<Rightarrow> CuerpoInvalido cuerpoNoJson
                | Some datos \<Rightarrow>
                    (if \<not> jsonTruthy (Some datos) \<or> \<not> isObjectType (Some datos)
                          \<or> isArray (Some datos)
                     then CuerpoInvalido cuerpoNoObjeto
                     else case datos of
                            JsonObj kvs \<Rightarrow> CuerpoValido kvs
                          | _ \<Rightarrow> CuerpoInvalido cuerpoNoObjeto)))"

text \<open>The list returned is \<^verbatim>\<open>camposFaltantes\<close>; the check passes when it is empty.\<close>

definition campoFalta :: "item \<Rightarrow> string \<Rightarrow> bool" where
  "campoFalta personaje campo =
     (\<not> jsonTruthy (map_of personaje campo) \<or> \<not> isString (map_of personaje campo) \<or>
      (case map_of personaje campo of Some (JsonStr s) \<Rightarrow> trim s = [] | _ \<Rightarrow> False))"

definition validarCamposObligatorios :: "item \<Rightarrow> string list" where
  "validarCamposObligatorios personaje = filter (campoFalta personaje) [''nombre'']"

definition camposString :: "string list" where
  "camposString =
     [''nombre'', ''altura'', ''masa'', ''color_de_cabello'', ''color_de_piel'', ''color_de_ojos'',
      ''a'' @ [CHR 0xF1] @ ''o_de_nacimiento'', ''genero'', ''planeta_natal'']"

definition camposArray :: "string list" where
  "camposArray = [''peliculas'', ''especies'', ''vehiculos'', ''naves_espaciales'']"

definition generosValidos :: "string list" where
  "generosValidos = [''masculino'', ''femenino'', ''hermafrodita'', ''n/a'', ''desconocido'']"

definition errorCadena :: "string \<Rightarrow> string" where
  "errorCadena campo = ''El campo '' @ quoted campo @ '' debe ser una cadena de texto''"

definition errorArray :: "string \<Rightarrow> string" where
  "errorArray campo = ''El campo '' @ quoted campo @ '' debe ser un array''"

definition errorNumerico :: "string \<Rightarrow> string" where
  "errorNumerico campo =
     ''El campo '' @ quoted campo @ '' debe contener un valor num'' @ [CHR 0xE9] @ ''rico''"

definition errorGenero :: string where
  "errorGenero = ''El campo '' @ quoted ''genero'' @ '' debe ser uno de: '' @ joinWith '', '' generosValidos"

text \<open>\<^verbatim>\<open>if (personaje.altura && isNaN(personaje.altura))\<close>, likewise for \<^verbatim>\<open>masa\<close>.\<close>

definition validarNumerico :: "item \<Rightarrow> string \<Rightarrow> jserror + string list" where
  "validarNumerico personaje campo =
     (if jsonTruthy (map_of personaje campo) then
        (case isNaN (map_of personaje campo) of
           Inl e \<Rightarrow> Inl e
         | Inr nan \<Rightarrow> Inr (if nan then [errorNumerico campo] else []))
      else Inr [])"

text \<open>
  \<^verbatim>\<open>if (personaje.genero) { ... personaje.genero.toLowerCase() ... }\<close>: a truthy value
  that is not a string has no method \<^verbatim>\<open>toLowerCase\<close>, and the call throws.
\<close>

definition validarGenero :: "item \<Rightarrow> jserror + string list" where
  "validarGenero personaje =
     (if jsonTruthy (map_of personaje ''genero'') then
        (case map_of personaje ''genero'' of
           Some (JsonStr g) \<Rightarrow>
             Inr (if toLowerCase g \<in> set generosValidos then [] else [errorGenero])
         | _ \<Rightarrow> Inl (TypeError ''personaje.genero.toLowerCase is not a function''))
      else Inr [])"

text \<open>The list returned is \<^verbatim>\<open>erroresValidacion\<close>; the check passes when it is empty.\<close>

definition validarTiposDeDatos :: "item \<Rightarrow> jserror + string list" where
  "validarTiposDeDatos personaje =
     (let e1 = concat (map (\<lambda>campo.
                 if map_of personaje campo \<noteq> None \<and> \<not> isString (map_of personaje campo)
                 then [errorCadena campo] else []) camposString);
          e2 = concat (map (\<lambda>campo.
                 if map_of personaje campo \<noteq> None \<and> \<not> isArray (map_of personaje campo)
                 then [errorArray campo] else []) camposArray)
      in case validarNumerico personaje ''altura'' of
           Inl e \<Rightarrow> Inl e
         | Inr e3 \<Rightarrow>
             (case validarNumerico personaje ''masa'' of
                Inl e \<Rightarrow> Inl e
              | Inr e4 \<Rightarrow>
                  (case validarGenero personaje of
                     Inl e \<Rightarrow> Inl e
                   | Inr e5 \<Rightarrow> Inr (e1 @ e2 @ e3 @ e4 @ e5))))"

definition setCampo :: "item \<Rightarrow> string \<Rightarrow> json \<Rightarrow> item" where
  "setCampo personaje k v = AList.update k v personaje"

text \<open>The three steps of \<open>sanitizarPersonaje\<close>: one turn of each loop, and the whole.\<close>

definition trimEntry :: "item \<Rightarrow> string \<times> json \<Rightarrow> item" where
  "trimEntry acc kv =
     (case kv of (k, v) \<Rightarrow> (case v of JsonStr s \<Rightarrow> setCampo acc k (JsonStr (trim s)) | _ \<Rightarrow> acc))"

definition defaultArray :: "item \<Rightarrow> string \<Rightarrow> item" where
  "defaultArray acc campo =
     (if \<not> jsonTruthy (map_of acc campo) then setCampo acc campo (JsonArr []) else acc)"

definition sanitizarPersonaje :: "item \<Rightarrow> jserror + item" where
  "sanitizarPersonaje personaje =
     (let trimmed = foldl trimEntry personaje personaje
      in case (if jsonTruthy (map_of trimmed ''genero'') then
                 (case map_of trimmed ''genero'' of
                    Some (JsonStr g) \<Rightarrow> Inr (setCampo trimmed ''genero'' (JsonStr (toLowerCase g)))
                  | _ \<Rightarrow> Inl (TypeError ''personajeSanitizado.genero.toLowerCase is not a function''))
               else Inr trimmed) of
           Inl e \<Rightarrow> Inl e
         | Inr normalizado \<Rightarrow> Inr (foldl defaultArray normalizado camposArray))"

definition ejemplo :: json where
  "ejemplo =
     JsonObj [(''nombre'', JsonStr ''Obi-Wan Kenobi''),
              (''altura'', JsonStr ''182''),
              (''masa'', JsonStr ''77''),
              (''color_de_cabello'', JsonStr (''casta'' @ [CHR 0xF1] @ ''o'')),
              (''color_de_ojos'', JsonStr ''azul''),
              (''genero'', JsonStr ''masculino'')]"

text \<open>The \<^verbatim>\<open>catch\<close> of the handler.\<close>

definition errorCrear :: "string option \<Rightarrow> jserror \<Rightarrow> json response" where
  "errorCrear nodeEnv e =
     (if errorMessage e \<noteq> [] \<and> strIncludes (errorMessage e) ''Ya existe'' then
        buildResponse 409 [(''error'', JsonStr ''Conflict''), (''mensaje'', JsonStr (errorMessage e))]
      else
        buildResponse 500
          [(''error'', JsonStr ''Internal Server Error''),
           (''mensaje'', JsonStr (''Ocurri'' @ [CHR 0xF3] @ '' un error al crear el personaje'')),
           (''detalles'', detallesError nodeEnv e ''Error interno del servidor'')])"

text \<open>
  The handler, given the environment, the store's \<^verbatim>\<open>put\<close>, \<^verbatim>\<open>JSON.parse\<close>, the
  identifier that \<^verbatim>\<open>uuidv4()\<close> returns and the time that
  \<^verbatim>\<open>new Date().toISOString()\<close> returns. It yields the response and the records
  handed to the store.
\<close>

definition handler_crearEntidad ::
  "string option \<Rightarrow> string option \<Rightarrow> (item \<Rightarrow> awsError option) \<Rightarrow> (string \<Rightarrow> json option)
     \<Rightarrow> string \<Rightarrow> string \<Rightarrow> string option \<Rightarrow> json response \<times> item list" where
  "handler_crearEntidad nodeEnv tabla put parse idUnico timestamp eventBody =
     (case validarCuerpoRequest parse eventBody of
        CuerpoInvalido err \<Rightarrow>
          (buildResponse 400 [(''error'', JsonStr ''Bad Request''), (''mensaje'', JsonStr err)], [])
      | CuerpoValido datosPersonaje \<Rightarrow>
          (let camposFaltantes = validarCamposObligatorios datosPersonaje in
           if camposFaltantes \<noteq> [] then
             (buildResponse 400
                [(''error'', JsonStr ''Bad Request''),
                 (''mensaje'', JsonStr (''Faltan campos obligatorios o est'' @ [CHR 0xE1] @ ''n vac''
                                          @ [CHR 0xED] @ ''os'')),
                 (''camposFaltantes'', JsonArr (map JsonStr camposFaltantes)),
                 (''ejemplo'', ejemplo)], [])
           else
             (case validarTiposDeDatos datosPersonaje of
                Inl e \<Rightarrow> (errorCrear nodeEnv e, [])
              | Inr errores \<Rightarrow>
                  (if errores \<noteq> [] then
                     (buildResponse 400
                        [(''error'', JsonStr ''Bad Request''),
                         (''mensaje'', JsonStr (''Errores de validaci'' @ [CHR 0xF3]
                                                  @ ''n en los datos proporcionados'')),
                         (''errores'', JsonArr (map JsonStr errores))], [])
                   else
                     (case sanitizarPersonaje datosPersonaje of
                        Inl e \<Rightarrow> (errorCrear nodeEnv e, [])
                      | Inr personajeSanitizado \<Rightarrow>
                          (let p1 = setCampo personajeSanitizado ''id'' (JsonStr idUnico);
                               p2 = setCampo p1 ''creado'' (JsonStr timestamp);
                               p3 = setCampo p2 ''actualizado'' (JsonStr timestamp);
                               saved = guardarPersonaje tabla put p3
                           in (case fst saved of
                                 Inl e \<Rightarrow> (errorCrear nodeEnv e, snd saved)
                               | Inr personajeGuardado \<Rightarrow>
                                   (buildResponse 201
                                      [(''exito'', JsonBool True),
                                       (''mensaje'', JsonStr ''Personaje creado exitosamente''),
                                       (''datos'', JsonObj personajeGuardado)], snd saved))))))))"

section \<open>The read handlers of the store (src/handlers/obtenerPersonaje.js, listarPersonajes.js)\<close>

text \<open>
  The \<^verbatim>\<open>catch\<close> shared by the two handlers: the message of the error is searched
  for \<^verbatim>\<open>DynamoDB\<close> first, then for \<^verbatim>\<open>variable de entorno\<close>.
\<close>

definition errorConsulta :: "string option \<Rightarrow> jserror \<Rightarrow> json response" where
  "errorConsulta nodeEnv e =
     (if errorMessage e \<noteq> [] \<and> strIncludes (errorMessage e) ''DynamoDB'' then
        buildResponse 503
          [(''error'', JsonStr ''Service Unavailable''),
           (''mensaje'', JsonStr ''No se pudo acceder a la base de datos''),
           (''detalles'', JsonStr ''Error al consultar DynamoDB'')]
      else if errorMessage e \<noteq> [] \<and> strIncludes (errorMessage e) ''variable de entorno'' then
        buildResponse 500
          [(''error'', JsonStr ''Internal Server Error''),
           (''mensaje'', JsonStr (''Error de configuraci'' @ [CHR 0xF3] @ ''n del servidor'')),
           (''detalles'', detallesError nodeEnv e (''Configuraci'' @ [CHR 0xF3] @ ''n incompleta''))]
      else
        buildResponse 500
          [(''error'', JsonStr ''Internal Server Error''),
           (''mensaje'', JsonStr (''Ocurri'' @ [CHR 0xF3] @ '' un error al procesar la solicitud'')),
           (''detalles'', detallesError nodeEnv e ''Error interno del servidor'')])"

text \<open>
  \<open>pathParameters\<close> and \<open>queryStringParameters\<close> are absent or map names to strings.
  \<^verbatim>\<open>const { id } = event.pathParameters || {}\<close> reads \<^verbatim>\<open>id\<close>.
\<close>

definition paramOf :: "(string \<times> string) list option \<Rightarrow> string \<Rightarrow> string option" where
  "paramOf params k = (case params of None \<Rightarrow> None | Some ps \<Rightarrow> map_of ps k)"

definition handler_obtenerPersonaje ::
  "string option \<Rightarrow> string option \<Rightarrow> (string \<Rightarrow> awsError + item option)
     \<Rightarrow> (string \<times> string) list option \<Rightarrow> json response" where
  "handler_obtenerPersonaje nodeEnv tabla get pathParameters =
     (case paramOf pathParameters ''id'' of
        None \<Rightarrow>
          buildResponse 400
            [(''error'', JsonStr ''Bad Request''),
             (''mensaje'', JsonStr ''El ID del personaje es requerido''),
             (''detalles'', JsonStr (''Debe proporcionar un ID v'' @ [CHR 0xE1]
                                      @ ''lido en la ruta: /personajes/{id}''))]
      | Some ident \<Rightarrow>
          (if ident = [] then
             buildResponse 400
               [(''error'', JsonStr ''Bad Request''),
                (''mensaje'', JsonStr ''El ID del personaje es requerido''),
                (''detalles'', JsonStr (''Debe proporcionar un ID v'' @ [CHR 0xE1]
                                         @ ''lido en la ruta: /personajes/{id}''))]
           else if trim ident = [] then
             buildResponse 400
               [(''error'', JsonStr ''Bad Request''),
                (''mensaje'', JsonStr (''El ID del personaje debe ser una cadena v'' @ [CHR 0xE1]
                                         @ ''lida'')),
                (''idRecibido'', JsonStr ident)]
           else
             (case obtenerPersonajePorId tabla get ident of
                Inl e \<Rightarrow> errorConsulta nodeEnv e
              | Inr None \<Rightarrow>
                  buildResponse 404
                    [(''error'', JsonStr ''Not Found''),
                     (''mensaje'', JsonStr (''No se encontr'' @ [CHR 0xF3]
                                              @ '' el personaje con ID '' @ ident)),
                     (''idBuscado'', JsonStr ident),
                     (''sugerencia'', JsonStr ''Verifique que el ID sea correcto o cree un nuevo personaje usando POST /personajes'')]
              | Inr (Some personaje) \<Rightarrow>
                  buildResponse 200
                    [(''exito'', JsonBool True),
                     (''mensaje'', JsonStr ''Personaje obtenido exitosamente''),
                     (''datos'', JsonObj personaje)])))"

text \<open>
  The page size of the list handler:
  \<^verbatim>\<open>parseInt(queryParams.limite || queryParams.limit || '50', 10)\<close>, then the two
  corrections. An empty string is falsy, so an empty \<^verbatim>\<open>limite\<close> gives way to
  \<^verbatim>\<open>limit\<close>.
\<close>

definition strOr :: "string option \<Rightarrow> string \<Rightarrow> string" where
  "strOr a b = (case a of None \<Rightarrow> b | Some s \<Rightarrow> if s = [] then b else s)"

definition limiteSolicitado :: "(string \<times> string) list option \<Rightarrow> string" where
  "limiteSolicitado queryStringParameters =
     strOr (paramOf queryStringParameters ''limite'')
       (strOr (paramOf queryStringParameters ''limit'') ''50'')"

definition resolverLimite :: "(string \<times> string) list option \<Rightarrow> int" where
  "resolverLimite queryStringParameters =
     (let parsed = parseInt10 (limiteSolicitado queryStringParameters);
          limite = (case parsed of None \<Rightarrow> 50 | Some n \<Rightarrow> if n \<le> 0 then 50 else n)
      in if limite > 100 then 100 else limite)"

text \<open>
  The list handler, given also \<open>ordenar\<close>, which stands for \<^verbatim>\<open>Array.prototype.sort\<close>
  with the comparator on \<^verbatim>\<open>creado\<close>. It yields the response and the limits handed to
  the store.
\<close>

definition handler_listarPersonajes ::
  "string option \<Rightarrow> string option \<Rightarrow> (int \<Rightarrow> awsError + item list option)
     \<Rightarrow> (item list \<Rightarrow> item list) \<Rightarrow> (string \<times> string) list option
     \<Rightarrow> json response \<times> int list" where
  "handler_listarPersonajes nodeEnv tabla scan ordenar queryStringParameters =
     (let limite = resolverLimite queryStringParameters;
          listed = listarPersonajes tabla scan limite
      in case fst listed of
           Inl e \<Rightarrow> (errorConsulta nodeEnv e, snd listed)
         | Inr personajes \<Rightarrow>
             (if length personajes = 0 then
                (buildResponse 200
                   [(''exito'', JsonBool True),
                    (''mensaje'', JsonStr ''No hay personajes almacenados''),
                    (''total'', JsonNum 0),
                    (''datos'', JsonArr [])], snd listed)
              else
                (let personajesOrdenados = ordenar personajes in
                 (buildResponse 200
                    [(''exito'', JsonBool True),
                     (''mensaje'', JsonStr ''Personajes obtenidos exitosamente''),
                     (''total'', JsonNum (int (length personajesOrdenados))),
                     (''limite'', JsonNum limite),
                     (''datos'', JsonArr (map JsonObj personajesOrdenados))], snd listed))))"

section \<open>The read-through handler (src/handlers/getPersonaje.js)\<close>

definition buildResponseSwapi :: "nat \<Rightarrow> (string \<times> jsval) list \<Rightarrow> jsval response" where
  "buildResponseSwapi status b =
     \<lparr>statusCode = status,
      headers = [(''Content-Type'', JStr ''application/json''),
                 (''Access-Control-Allow-Origin'', JStr ''*''),
                 (''Access-Control-Allow-Credentials'', JBool True)],
      body = b\<rparr>"

text \<open>\<^verbatim>\<open>isNaN(id) || parseInt(id) <= 0\<close>, for the string \<^verbatim>\<open>id\<close>.\<close>

definition idInvalido :: "string \<Rightarrow> bool" where
  "idInvalido ident =
     (\<not> isStrNumeric ident \<or> (case parseInt ident of None \<Rightarrow> False | Some n \<Rightarrow> n \<le> 0))"

text \<open>
  The handler, given the client \<^verbatim>\<open>getPersonajeById\<close>, which resolves with a value or
  rejects with an error. It yields the response and the identifiers with which the
  client was invoked.
\<close>

definition handler_getPersonaje ::
  "string option \<Rightarrow> (string \<Rightarrow> jserror + jsval) \<Rightarrow> (string \<times> string) list option
     \<Rightarrow> jsval response \<times> string list" where
  "handler_getPersonaje nodeEnv getPersonajeById pathParameters =
     (case paramOf pathParameters ''id'' of
        None \<Rightarrow>
          (buildResponseSwapi 400
             [(''error'', JStr ''Bad Request''),
              (''mensaje'', JStr ''El ID del personaje es requerido''),
              (''detalles'', JStr (''Debe proporcionar un ID v'' @ [CHR 0xE1]
                                    @ ''lido en la ruta: /personajes/swapi/{id}''))], [])
      | Some ident \<Rightarrow>
          (if ident = [] then
             (buildResponseSwapi 400
                [(''error'', JStr ''Bad Request''),
                 (''mensaje'', JStr ''El ID del personaje es requerido''),
                 (''detalles'', JStr (''Debe proporcionar un ID v'' @ [CHR 0xE1]
                                       @ ''lido en la ruta: /personajes/swapi/{id}''))], [])
           else if idInvalido ident then
             (buildResponseSwapi 400
                [(''error'', JStr ''Bad Request''),
                 (''mensaje'', JStr (''El ID del personaje debe ser un n'' @ [CHR 0xFA]
                                      @ ''mero positivo'')),
                 (''idRecibido'', JStr ident)], [])
           else
             (case getPersonajeById ident of
                Inr personaje \<Rightarrow>
                  (if \<not> truthy personaje then
                     (buildResponseSwapi 404
                        [(''error'', JStr ''Not Found''),
                         (''mensaje'', JStr (''No se encontr'' @ [CHR 0xF3]
                                              @ '' el personaje con ID '' @ ident @ '' en SWAPI'')),
                         (''idBuscado'', JStr ident)], [ident])
                   else
                     (buildResponseSwapi 200
                        [(''exito'', JBool True),
                         (''mensaje'', JStr ''Personaje obtenido exitosamente desde SWAPI''),
                         (''datos'', personaje)], [ident]))
              | Inl e \<Rightarrow>
                  (if errorMessage e \<noteq> [] \<and> strIncludes (errorMessage e) ''no encontrado'' then
                     (buildResponseSwapi 404
                        [(''error'', JStr ''Not Found''),
                         (''mensaje'', JStr (errorMessage e)),
                         (''idBuscado'', JStr ident)], [ident])
                   else if errorMessage e \<noteq> [] \<and> strIncludes (errorMessage e) ''conectar'' then
                     (buildResponseSwapi 503
                        [(''error'', JStr ''Service Unavailable''),
                         (''mensaje'', JStr ''No se pudo conectar con el servicio de Star Wars''),
                         (''detalles'', JStr (errorMessage e))], [ident])
                   else
                     (buildResponseSwapi 500
                        [(''error'', JStr ''Internal Server Error''),
                         (''mensaje'', JStr (''Ocurri'' @ [CHR 0xF3]
                                              @ '' un error al procesar la solicitud'')),
                         (''detalles'', JStr (if nodeEnv = Some ''development'' then errorMessage e
                                              else ''Error interno del servidor''))], [ident])))))"

section \<open>Notions used to state the properties\<close>

text \<open>
  The key under which \<open>mapPersonajeToEspanol\<close> stores the entry of a source key, and
  the value it stores for a source value.
\<close>

definition translateKey :: "string \<Rightarrow> string" where
  "translateKey k = toPropertyKey (translateFieldName k)"

definition translateEntryValue :: "jsval \<Rightarrow> jsval" where
  "translateEntryValue valor =
     (case valor of JArr xs \<Rightarrow> JArr (map translateValue xs) | _ \<Rightarrow> translateValue valor)"

text \<open>
  A text \<open>t\<close> is a slash, the non-empty digit sequence \<open>d\<close> and at most one closing
  slash. \<open>trailingId\<close> reads the digits at the end of a string from the right.
\<close>

definition idShape :: "string \<Rightarrow> string \<Rightarrow> bool" where
  "idShape t d \<longleftrightarrow>
     d \<noteq> [] \<and> list_all isDigit d \<and> (t = ''/'' @ d \<or> t = ''/'' @ d @ ''/'')"

definition trailingId :: "string \<Rightarrow> string" where
  "trailingId s =
     rev (takeWhile isDigit (rev (if s \<noteq> [] \<and> last s = CHR ''/'' then butlast s else s)))"

text \<open>The code units of ASCII.\<close>

definition isAscii :: "char \<Rightarrow> bool" where
  "isAscii c = ((of_char c :: nat) < 128)"

text \<open>
  The parts of the text of a page size: white space \<open>ws\<close>, then a sign \<open>sg\<close> or none,
  then the digits \<open>ds\<close>, as many as follow, then the rest. Every text has such parts
  (lemma \<open>limiteShape_exists\<close>).
\<close>

definition noLeading :: "(char \<Rightarrow> bool) \<Rightarrow> string \<Rightarrow> bool" where
  "noLeading P s = (case s of [] \<Rightarrow> True | c # cs \<Rightarrow> \<not> P c)"

definition isSign :: "char \<Rightarrow> bool" where
  "isSign c = (c = CHR ''+'' \<or> c = CHR ''-'')"

definition limiteShape :: "string \<Rightarrow> string \<Rightarrow> string \<Rightarrow> string \<Rightarrow> string \<Rightarrow> bool" where
  "limiteShape raw ws sg ds rest \<longleftrightarrow>
     raw = ws @ sg @ ds @ rest \<and>
     list_all isWhiteSpace ws \<and> noLeading isWhiteSpace (sg @ ds @ rest) \<and>
     (sg = [] \<and> noLeading isSign (ds @ rest) \<or> sg = ''+'' \<or> sg = ''-'') \<and>
     list_all isDigit ds \<and> noLeading isDigit rest"

section \<open>The translator: entries of a translated record\<close>

lemma update_fresh: "k \<notin> fst ` set al \<Longrightarrow> AList.update k v al = al @ [(k, v)]"
  by (induction al) auto

lemma mapEntry_eq: "mapEntry acc (k, v) = AList.update (translateKey k) (translateEntryValue v) acc"
  by (cases v) (simp_all add: mapEntry_def translateKey_def translateEntryValue_def setProp_def)

lemma foldl_mapEntry_keys:
  "fst ` set (foldl mapEntry acc kvs) = fst ` set acc \<union> translateKey ` fst ` set kvs"
proof (induction kvs arbitrary: acc)
  case Nil
  show ?case by simp
next
  case (Cons kv kvs)
  obtain k v where kv: "kv = (k, v)" by (cases kv)
  show ?case
    by (auto simp: kv Cons.IH mapEntry_eq dom_update)
qed

lemma foldl_mapEntry_distinct:
  "distinct (map fst acc) \<Longrightarrow> distinct (map fst (foldl mapEntry acc kvs))"
proof (induction kvs arbitrary: acc)
  case Nil
  then show ?case by simp
next
  case (Cons kv kvs)
  obtain k v where kv: "kv = (k, v)" by (cases kv)
  show ?case
    using Cons.prems by (simp add: kv mapEntry_eq Cons.IH distinct_update)
qed

lemma foldl_mapEntry_inj:
  "distinct (map (translateKey \<circ> fst) kvs) \<Longrightarrow>
   translateKey ` fst ` set kvs \<inter> fst ` set acc = {} \<Longrightarrow>
   foldl mapEntry acc kvs = acc @ map (\<lambda>(k, v). (translateKey k, translateEntryValue v)) kvs"
proof (induction kvs arbitrary: acc)
  case Nil
  show ?case by simp
next
  case (Cons kv kvs)
  obtain k v where kv: "kv = (k, v)" by (cases kv)
  have fresh: "translateKey k \<notin> fst ` set acc"
    using Cons.prems(2) by (auto simp: kv)
  have step: "mapEntry acc (k, v) = acc @ [(translateKey k, translateEntryValue v)]"
    by (simp add: mapEntry_eq update_fresh [OF fresh])
  have d: "distinct (map (translateKey \<circ> fst) kvs)"
    using Cons.prems(1) by (simp add: comp_def)
  have nk: "translateKey k \<notin> translateKey ` fst ` set kvs"
    using Cons.prems(1) by (auto simp: kv)
  have disj: "translateKey ` fst ` set kvs \<inter> fst ` set (acc @ [(translateKey k, translateEntryValue v)]) = {}"
    using Cons.prems(2) nk by (auto simp: kv)
  show ?case
    using Cons.IH [OF d disj] by (simp add: step kv)
qed

lemma translateFieldName_cases:
  "(\<exists>s. translateFieldName k = JStr s) \<or> (\<exists>f. translateFieldName k = JFun f) \<or> translateFieldName k = JProto"
proof (cases "map_of PERSONAJE_FIELD_MAP k")
  case None
  then show ?thesis
    by (auto simp: translateFieldName_def getProp_def jsOr_def inherited_def split: option.splits)
next
  case (Some v)
  then have "\<exists>s. v = JStr s \<and> s \<noteq> []"
    by (auto simp: PERSONAJE_FIELD_MAP_def split: if_splits)
  with Some show ?thesis
    by (auto simp: translateFieldName_def getProp_def jsOr_def)
qed

lemma translateKey_inj_source_names: "inj_on translateKey (set (map fst PERSONAJE_FIELD_MAP))"
proof -
  have "distinct (map translateKey (map fst PERSONAJE_FIELD_MAP))"
    by code_simp
  then show ?thesis
    by (simp only: distinct_map)
qed

text \<open>
  C1 (as amended). \<open>mapPersonajeToEspanol(null)\<close> is \<open>null\<close>. For an object, the result
  is an object whose keys are exactly the translated keys of the input, so it has at
  most as many entries as the input; when no two keys of the input translate to the
  same key, it has exactly one entry per input entry, the key renamed and the value
  retranslated, in the same order; this is so for every record whose keys are among
  the sixteen source field names. \<open>{name:'Yoda', height:'66'}\<close> gives exactly
  \<open>{nombre:'Yoda', altura:'66'}\<close>.
\<close>

theorem mapPersonajeToEspanol_entries:
  assumes "distinct (map fst kvs)"
  shows "mapPersonajeToEspanol JNull = JNull \<and>
    (\<exists>out. mapPersonajeToEspanol (JObj kvs) = JObj out \<and>
        distinct (map fst out) \<and>
        set (map fst out) = translateKey ` set (map fst kvs) \<and>
        length out \<le> length kvs \<and>
        (inj_on translateKey (set (map fst kvs)) \<longrightarrow>
           out = map (\<lambda>(k, v). (translateKey k, translateEntryValue v)) kvs \<and>
           length out = length kvs) \<and>
        (set (map fst kvs) \<subseteq> set (map fst PERSONAJE_FIELD_MAP) \<longrightarrow>
           length out = length kvs)) \<and>
    mapPersonajeToEspanol (JObj [(''name'', JStr ''Yoda''), (''height'', JStr ''66'')])
      = JObj [(''nombre'', JStr ''Yoda''), (''altura'', JStr ''66'')]"
proof -
  let ?out = "foldl mapEntry [] kvs"
  have res: "mapPersonajeToEspanol (JObj kvs) = JObj ?out"
    by (simp add: mapPersonajeToEspanol_def)
  have dist: "distinct (map fst ?out)"
    by (rule foldl_mapEntry_distinct) simp
  have keys: "set (map fst ?out) = translateKey ` set (map fst kvs)"
    using foldl_mapEntry_keys [of "[]" kvs] by simp
  have "length ?out = card (set (map fst ?out))"
    using dist distinct_card [of "map fst ?out"] by simp
  also have "\<dots> \<le> card (set (map fst kvs))"
    unfolding keys by (rule card_image_le) simp
  also have "\<dots> \<le> length kvs"
    using card_length [of "map fst kvs"] by simp
  finally have len: "length ?out \<le> length kvs" .
  have inj: "?out = map (\<lambda>(k, v). (translateKey k, translateEntryValue v)) kvs"
    if "inj_on translateKey (set (map fst kvs))"
  proof -
    have "distinct (map translateKey (map fst kvs))"
      using assms that by (simp only: distinct_map)
    then have "distinct (map (translateKey \<circ> fst) kvs)"
      by simp
    then show ?thesis
      using foldl_mapEntry_inj [of kvs "[]"] by simp
  qed
  have src: "inj_on translateKey (set (map fst kvs))"
    if "set (map fst kvs) \<subseteq> set (map fst PERSONAJE_FIELD_MAP)"
    using that by (rule inj_on_subset [OF translateKey_inj_source_names])
  have yoda: "mapPersonajeToEspanol (JObj [(''name'', JStr ''Yoda''), (''height'', JStr ''66'')])
      = JObj [(''nombre'', JStr ''Yoda''), (''altura'', JStr ''66'')]"
    by code_simp
  have null: "mapPersonajeToEspanol JNull = JNull"
    by (simp add: mapPersonajeToEspanol_def)
  show ?thesis
    using res dist keys len inj src null yoda by auto
qed

theorem mapPersonajeToEspanol_entries_witness:
  "distinct (map fst [(''name'', JStr ''Leia''), (''gender'', JStr ''female'')]) \<and>
   inj_on translateKey (set (map fst [(''name'', JStr ''Leia''), (''gender'', JStr ''female'')])) \<and>
   set (map fst [(''name'', JStr ''Leia''), (''gender'', JStr ''female'')])
     \<subseteq> set (map fst PERSONAJE_FIELD_MAP) \<and>
   mapPersonajeToEspanol (JObj [(''name'', JStr ''Leia''), (''gender'', JStr ''female'')])
     = JObj [(''nombre'', JStr ''Leia''), (''genero'', JStr ''femenino'')]"
proof -
  let ?kvs = "[(''name'', JStr ''Leia''), (''gender'', JStr ''female'')]"
  have d: "distinct (map fst ?kvs)"
    by simp
  have k: "translateKey ''name'' = ''nombre''" "translateKey ''gender'' = ''genero''"
    by code_simp+
  have i: "inj_on translateKey (set (map fst ?kvs))"
    by (simp add: k)
  have s: "set (map fst ?kvs) \<subseteq> set (map fst PERSONAJE_FIELD_MAP)"
    by (simp add: PERSONAJE_FIELD_MAP_def)
  have v: "translateEntryValue (JStr ''Leia'') = JStr ''Leia''"
    "translateEntryValue (JStr ''female'') = JStr ''femenino''"
    by code_simp+
  have r: "mapPersonajeToEspanol (JObj ?kvs) = JObj [(''nombre'', JStr ''Leia''), (''genero'', JStr ''femenino'')]"
    using i mapPersonajeToEspanol_entries [OF d] by (auto simp: k v)
  show ?thesis
    by (rule conjI [OF d conjI [OF i conjI [OF s r]]])
qed

text \<open>
  C1 as stated fails: an input with the two keys \<open>name\<close> and \<open>nombre\<close> has two
  entries, its translation has one.
\<close>

theorem mapPersonajeToEspanol_collision_counterexample:
  "mapPersonajeToEspanol (JObj [(''name'', JStr ''Yoda''), (''nombre'', JStr ''Darth'')])
     = JObj [(''nombre'', JStr ''Darth'')] \<and>
   length (entries (mapPersonajeToEspanol (JObj [(''name'', JStr ''Yoda''), (''nombre'', JStr ''Darth'')])))
     \<noteq> length (entries (JObj [(''name'', JStr ''Yoda''), (''nombre'', JStr ''Darth'')]))"
  by code_simp

section \<open>The translator: values\<close>

lemma toUpperUnits_ascii:
  assumes "isAscii c"
  shows "\<exists>c'. toUpperUnits c = Some [c'] \<and> toLowerChar c' = toLowerChar c"
proof -
  define n where "n = (of_char c :: nat)"
  have c: "c = char_of n" by (simp add: n_def)
  have lt: "n < 128" using assms by (simp add: isAscii_def n_def)
  have m: "n - 32 + 32 = n" if "97 \<le> n" using that by auto
  show ?thesis
    using lt unfolding c
    by (auto simp: toUpperUnits_def toLowerChar_def Let_def m)
qed

lemma toUpperCase_ascii:
  "list_all isAscii s \<Longrightarrow> \<exists>u. toUpperCase s = Some u \<and> toLowerCase u = toLowerCase s"
proof (induction s)
  case Nil
  then show ?case by (simp add: toLowerCase_def)
next
  case (Cons c cs)
  then obtain u where u: "toUpperCase cs = Some u" "toLowerCase u = toLowerCase cs" by auto
  from Cons.prems toUpperUnits_ascii [of c] obtain c'
    where c': "toUpperUnits c = Some [c']" "toLowerChar c' = toLowerChar c" by auto
  show ?case using u c' by (simp add: toLowerCase_def)
qed

lemma isAscii_toLowerChar: "isAscii (toLowerChar c) \<Longrightarrow> isAscii c"
proof -
  define n where "n = (of_char c :: nat)"
  have c: "c = char_of n" by (simp add: n_def)
  have lt: "n < 256" by (simp add: n_def)
  assume "isAscii (toLowerChar c)"
  then show ?thesis
    using lt unfolding c by (auto simp: isAscii_def toLowerChar_def Let_def split: if_splits)
qed

lemma translateValue_nonstring: "(\<forall>s. v \<noteq> JStr s) \<Longrightarrow> translateValue v = v"
  by (cases v) (simp_all add: translateValue_def)

lemma map_of_VALUE_TRANSLATIONS_truthy:
  "map_of VALUE_TRANSLATIONS k = Some v \<Longrightarrow> truthy v"
  by (auto simp: VALUE_TRANSLATIONS_def split: if_splits)

lemma known_keys_ascii: "map_of VALUE_TRANSLATIONS k = Some r \<Longrightarrow> list_all isAscii k"
proof -
  have "list_all (list_all isAscii) (map fst VALUE_TRANSLATIONS)"
    by code_simp
  moreover assume "map_of VALUE_TRANSLATIONS k = Some r"
  then have "k \<in> set (map fst VALUE_TRANSLATIONS)"
    by (auto dest: map_of_SomeD simp: rev_image_eqI)
  ultimately show ?thesis by (auto simp: list_all_iff)
qed

lemma translateValue_known:
  assumes "map_of VALUE_TRANSLATIONS (toLowerCase s) = Some r"
  shows "translateValue (JStr s) = r"
    and "\<exists>u. toUpperCase s = Some u \<and> translateValue (JStr u) = r"
proof -
  have t: "truthy r" by (rule map_of_VALUE_TRANSLATIONS_truthy [OF assms])
  show "translateValue (JStr s) = r"
    using assms t by (simp add: translateValue_def getProp_def jsOr_def)
  have "list_all isAscii (toLowerCase s)" by (rule known_keys_ascii [OF assms])
  then have "list_all isAscii s"
    by (auto simp: list_all_iff toLowerCase_def intro: isAscii_toLowerChar)
  from toUpperCase_ascii [OF this] obtain u
    where u: "toUpperCase s = Some u" "toLowerCase u = toLowerCase s" by blast
  have "translateValue (JStr u) = r"
    using assms t u(2) by (simp add: translateValue_def getProp_def jsOr_def)
  with u(1) show "\<exists>u. toUpperCase s = Some u \<and> translateValue (JStr u) = r" by blast
qed

lemma translateValue_passthrough:
  assumes "map_of VALUE_TRANSLATIONS (toLowerCase s) = None" and "inherited (toLowerCase s) = None"
  shows "translateValue (JStr s) = JStr s"
  using assms by (simp add: translateValue_def getProp_def jsOr_def)

text \<open>
  C2. The lookup \<^verbatim>\<open>VALUE_TRANSLATIONS[lowerValue]\<close> also finds what the table
  inherits. The lower-cased form of \<open>constructor\<close> is no key of the table, yet
  \<open>translateValue('constructor')\<close> is the function \<open>Object\<close> and not the string it was
  given.
\<close>

theorem translateValue_constructor:
  "map_of VALUE_TRANSLATIONS (toLowerCase ''constructor'') = None \<and>
   translateValue (JStr ''constructor'') = JFun ''Object'' \<and>
   translateValue (JStr ''constructor'') \<noteq> JStr ''constructor''"
  by code_simp

section \<open>The translator: extractIdFromUrl\<close>

lemma isDigit_slash: "\<not> isDigit (CHR ''/'')"
  by (simp add: isDigit_def)

lemma matchOptSlashEnd_iff: "matchOptSlashEnd r \<longleftrightarrow> r = [] \<or> r = ''/''"
  by (auto simp: matchOptSlashEnd_def split: list.splits)

lemma matchDigits_Some:
  "matchDigits n r = Some d \<Longrightarrow> \<exists>m. 0 < m \<and> m \<le> n \<and> d = take m r \<and> matchOptSlashEnd (drop m r)"
proof (induction n)
  case 0
  then show ?case by simp
next
  case (Suc n)
  show ?case
  proof (cases "matchOptSlashEnd (drop (Suc n) r)")
    case True
    with Suc.prems have "d = take (Suc n) r" by simp
    with True show ?thesis by blast
  next
    case False
    with Suc.prems have "matchDigits n r = Some d" by simp
    from Suc.IH [OF this] show ?thesis by (auto intro: le_SucI)
  qed
qed

lemma takeWhile_digits_tail:
  "\<forall>c\<in>set d. isDigit c \<Longrightarrow> tail = [] \<or> tail = ''/'' \<Longrightarrow> takeWhile isDigit (d @ tail) = d"
  by (induction d) (auto simp: isDigit_slash)

lemma matchAt_shape: "matchAt t = Some d \<Longrightarrow> idShape t d"
proof -
  assume m: "matchAt t = Some d"
  then obtain r where t: "t = CHR ''/'' # r"
    and md: "matchDigits (length (takeWhile isDigit r)) r = Some d"
    by (auto simp: matchAt_def split: list.splits if_splits)
  from matchDigits_Some [OF md] obtain m where
    m: "0 < m" "m \<le> length (takeWhile isDigit r)" "d = take m r" "matchOptSlashEnd (drop m r)"
    by blast
  have pre: "take m r = take m (takeWhile isDigit r)"
    using m(2) by (metis takeWhile_dropWhile_id take_append diff_is_0_eq take_0 append_Nil2)
  have digs: "\<forall>c\<in>set d. isDigit c"
    unfolding m(3) pre by (auto dest!: in_set_takeD set_takeWhileD)
  have len: "m \<le> length r"
    using m(2) length_takeWhile_le [of isDigit r] by simp
  have ne: "d \<noteq> []"
    using m(1) len m(3) by auto
  have "r = d @ drop m r"
    using m(3) by simp
  with m(4) have "r = d \<or> r = d @ ''/''"
    by (auto simp: matchOptSlashEnd_iff)
  then show ?thesis
    using t digs ne by (auto simp: idShape_def list_all_iff)
qed

lemma shape_matchAt: "idShape t d \<Longrightarrow> matchAt t = Some d"
proof -
  assume s: "idShape t d"
  then obtain tail where tail: "tail = [] \<or> tail = ''/''" and t: "t = CHR ''/'' # d @ tail"
    and ne: "d \<noteq> []" and digs: "\<forall>c\<in>set d. isDigit c"
    by (auto simp: idShape_def list_all_iff)
  have tw: "takeWhile isDigit (d @ tail) = d"
    by (rule takeWhile_digits_tail [OF digs tail])
  obtain n where n: "length d = Suc n"
    using ne by (cases d) auto
  have "matchDigits (Suc n) (d @ tail) = Some d"
    using tail n by (auto simp: matchOptSlashEnd_iff)
  then show ?thesis
    by (simp add: matchAt_def t tw n)
qed

lemma regexSearch_Some: "regexSearch s = Some d \<Longrightarrow> \<exists>p t. s = p @ t \<and> matchAt t = Some d"
proof (induction s)
  case Nil
  then show ?case by simp
next
  case (Cons c r)
  show ?case
  proof (cases "matchAt (c # r)")
    case (Some d')
    with Cons.prems have "d' = d" by simp
    with Some have "c # r = [] @ (c # r) \<and> matchAt (c # r) = Some d" by simp
    then show ?thesis by blast
  next
    case None
    with Cons.prems have "regexSearch r = Some d" by simp
    from Cons.IH [OF this] obtain p t where "r = p @ t" "matchAt t = Some d" by blast
    then have "c # r = (c # p) @ t \<and> matchAt t = Some d" by simp
    then show ?thesis by blast
  qed
qed

lemma regexSearch_finds: "matchAt t = Some d \<Longrightarrow> \<exists>d'. regexSearch (p @ t) = Some d'"
proof (induction p)
  case Nil
  then show ?case by (cases t) (auto simp: matchAt_def)
next
  case (Cons c p)
  then show ?case by (cases "matchAt (c # p @ t)") auto
qed

lemma trailingId_shape:
  assumes "idShape t d"
  shows "trailingId (p @ t) = d"
proof -
  from assms have ne: "d \<noteq> []" and digs: "\<forall>c\<in>set d. isDigit c"
    and t: "t = ''/'' @ d \<or> t = ''/'' @ d @ ''/''"
    by (auto simp: idShape_def list_all_iff)
  have tw: "takeWhile isDigit (rev d @ CHR ''/'' # rev p) = rev d"
    using digs by (simp add: takeWhile_tail isDigit_slash)
  from t show ?thesis
  proof
    assume a: "t = ''/'' @ d"
    have "last (p @ t) = last d" using ne by (simp add: a)
    moreover have "isDigit (last d)" using ne digs by simp
    ultimately have "last (p @ t) \<noteq> CHR ''/''" using isDigit_slash by auto
    then show ?thesis using tw by (simp add: trailingId_def a)
  next
    assume a: "t = ''/'' @ d @ ''/''"
    have "trailingId ((p @ ''/'' @ d) @ ''/'') = d"
      using tw by (simp add: trailingId_def butlast_append)
    then show ?thesis by (simp add: a)
  qed
qed

lemma regexSearch_iff: "regexSearch s = Some d \<longleftrightarrow> (\<exists>p t. s = p @ t \<and> idShape t d)"
proof
  assume "regexSearch s = Some d"
  then show "\<exists>p t. s = p @ t \<and> idShape t d"
    by (blast dest: regexSearch_Some matchAt_shape)
next
  assume "\<exists>p t. s = p @ t \<and> idShape t d"
  then obtain p t where s: "s = p @ t" and sh: "idShape t d" by blast
  from regexSearch_finds [OF shape_matchAt [OF sh]] obtain d' where d': "regexSearch s = Some d'"
    unfolding s by blast
  from regexSearch_Some [OF d'] obtain p' t' where s': "s = p' @ t'" and "matchAt t' = Some d'"
    by blast
  then have "idShape t' d'" by (simp add: matchAt_shape)
  then have "trailingId s = d'" unfolding s' by (rule trailingId_shape)
  moreover have "trailingId s = d" unfolding s using sh by (rule trailingId_shape)
  ultimately show "regexSearch s = Some d" using d' by simp
qed

lemma extractIdFromUrl_str:
  "extractIdFromUrl (JStr s) = (case regexSearch s of Some d \<Rightarrow> JStr d | None \<Rightarrow> JNull)"
  by (cases s) (simp_all add: extractIdFromUrl_def)

text \<open>
  C7. \<open>extractIdFromUrl\<close> returns the digits \<open>d\<close> for a string that ends in a slash,
  the non-empty digit sequence \<open>d\<close> and at most one closing slash; whenever it returns
  something other than \<open>null\<close>, the input is such a string and the result is its digit
  sequence. So every other input, a non-string and the empty string included, gives
  \<open>null\<close>.
\<close>

theorem extractIdFromUrl_trailing_digits:
  "(d \<noteq> [] \<and> list_all isDigit d \<longrightarrow>
      extractIdFromUrl (JStr (p @ ''/'' @ d)) = JStr d \<and>
      extractIdFromUrl (JStr (p @ ''/'' @ d @ ''/'')) = JStr d) \<and>
   (extractIdFromUrl v \<noteq> JNull \<longrightarrow>
      (\<exists>s q e. v = JStr s \<and> e \<noteq> [] \<and> list_all isDigit e \<and>
         (s = q @ ''/'' @ e \<or> s = q @ ''/'' @ e @ ''/'') \<and> extractIdFromUrl v = JStr e)) \<and>
   extractIdFromUrl (JStr ''https://host/api/people/42/'') = JStr ''42'' \<and>
   extractIdFromUrl (JStr ''https://host/api/people/42'') = JStr ''42'' \<and>
   extractIdFromUrl (JStr ''https://host/api/people/'') = JNull \<and>
   extractIdFromUrl (JStr ''not-a-url'') = JNull"
proof -
  have fwd: "extractIdFromUrl (JStr (p @ ''/'' @ d)) = JStr d \<and>
      extractIdFromUrl (JStr (p @ ''/'' @ d @ ''/'')) = JStr d"
    if "d \<noteq> []" "list_all isDigit d"
  proof -
    have "idShape (''/'' @ d) d" and "idShape (''/'' @ d @ ''/'') d"
      using that by (simp_all add: idShape_def)
    then have "regexSearch (p @ ''/'' @ d) = Some d" and "regexSearch (p @ ''/'' @ d @ ''/'') = Some d"
      unfolding regexSearch_iff by blast+
    then show ?thesis by (simp add: extractIdFromUrl_str)
  qed
  have bwd: "\<exists>s q e. v = JStr s \<and> e \<noteq> [] \<and> list_all isDigit e \<and>
         (s = q @ ''/'' @ e \<or> s = q @ ''/'' @ e @ ''/'') \<and> extractIdFromUrl v = JStr e"
    if nn: "extractIdFromUrl v \<noteq> JNull"
  proof -
    from nn obtain s where v: "v = JStr s"
      by (cases v) (auto simp: extractIdFromUrl_def)
    from nn obtain e where e: "regexSearch s = Some e"
      by (auto simp: v extractIdFromUrl_str split: option.splits)
    then obtain q t where "s = q @ t" "idShape t e"
      unfolding regexSearch_iff by blast
    then show ?thesis
      using e by (auto simp: v extractIdFromUrl_str idShape_def)
  qed
  have ex: "extractIdFromUrl (JStr ''https://host/api/people/42/'') = JStr ''42''"
    "extractIdFromUrl (JStr ''https://host/api/people/42'') = JStr ''42''"
    "extractIdFromUrl (JStr ''https://host/api/people/'') = JNull"
    "extractIdFromUrl (JStr ''not-a-url'') = JNull"
    by code_simp+
  show ?thesis using fwd bwd ex by blast
qed

theorem extractIdFromUrl_trailing_digits_witness:
  "extractIdFromUrl (JStr (''https://swapi.py4e.com/api/films'' @ ''/'' @ ''5'')) = JStr ''5'' \<and>
   extractIdFromUrl (JStr (''https://swapi.py4e.com/api/films'' @ ''/'' @ ''5'' @ ''/'')) = JStr ''5'' \<and>
   extractIdFromUrl (JStr ''/12/34'') \<noteq> JNull \<and>
   (\<exists>s q e. JStr ''/12/34'' = JStr s \<and> e \<noteq> [] \<and> list_all isDigit e \<and>
         (s = q @ ''/'' @ e \<or> s = q @ ''/'' @ e @ ''/'') \<and> extractIdFromUrl (JStr ''/12/34'') = JStr e)"
proof -
  have d: "''5'' \<noteq> [] \<and> list_all isDigit ''5''"
    by (simp add: isDigit_def)
  have n: "extractIdFromUrl (JStr ''/12/34'') \<noteq> JNull"
    by code_simp
  show ?thesis
    using d n extractIdFromUrl_trailing_digits [of "''5''" "''https://swapi.py4e.com/api/films''" "JStr ''/12/34''"]
    by blast
qed

section \<open>The list handler\<close>

lemma isDigit_char_of: "(d::nat) < 10 \<Longrightarrow> isDigit (char_of (48 + d))"
  by (simp add: isDigit_def)

lemma digitValue_char_of: "(d::nat) < 10 \<Longrightarrow> digitValue (char_of (48 + d)) = d"
  by (simp add: digitValue_def Let_def)

lemma showNat_digits: "showNat n \<noteq> [] \<and> list_all isDigit (showNat n)"
proof (induction n rule: showNat.induct)
  case (1 n)
  show ?case
  proof (cases "n < 10")
    case True
    then show ?thesis by (subst (1 2) showNat.simps) (simp add: isDigit_char_of)
  next
    case False
    with 1 show ?thesis by (subst (1 2) showNat.simps) (simp add: isDigit_char_of)
  qed
qed

lemma digitsValue_showNat: "digitsValue 10 (showNat n) = int n"
proof (induction n rule: showNat.induct)
  case (1 n)
  show ?case
  proof (cases "n < 10")
    case True
    then show ?thesis by (subst showNat.simps) (simp add: digitsValue_def digitValue_char_of)
  next
    case False
    with 1 have "foldl (\<lambda>acc c. acc * 10 + digitValue c) 0 (showNat (n div 10)) = n div 10"
      by (simp add: digitsValue_def)
    with False show ?thesis
      by (subst showNat.simps) (simp add: digitsValue_def digitValue_char_of)
  qed
qed

lemma isDigit_not_space: "isDigit c \<Longrightarrow> \<not> isWhiteSpace c"
  by (auto simp: isDigit_def isWhiteSpace_def)

lemma isDigit_not_sign: "isDigit c \<Longrightarrow> c \<noteq> CHR ''-'' \<and> c \<noteq> CHR ''+''"
  by (auto simp: isDigit_def)

lemma takeWhile_digits_rest:
  "list_all isDigit ds \<Longrightarrow> rest = [] \<or> \<not> isDigit (hd rest) \<Longrightarrow> takeWhile isDigit (ds @ rest) = ds"
  by (induction ds) (cases rest; auto)+

lemma parseInt10_digits:
  assumes "ds \<noteq> []" "list_all isDigit ds" "rest = [] \<or> \<not> isDigit (hd rest)"
  shows "parseInt10 (ds @ rest) = Some (digitsValue 10 ds)"
    and "parseInt10 (CHR ''-'' # ds @ rest) = Some (- digitsValue 10 ds)"
proof -
  obtain c cs where ds: "ds = c # cs" using assms(1) by (cases ds) auto
  have c: "isDigit c" using assms(2) by (simp add: ds)
  have tw: "takeWhile isDigit (ds @ rest) = ds"
    by (rule takeWhile_digits_rest [OF assms(2,3)])
  show "parseInt10 (ds @ rest) = Some (digitsValue 10 ds)"
    using tw c isDigit_not_space [OF c] isDigit_not_sign [OF c] assms(1)
    by (simp add: parseInt10_def parseIntRadix_def Let_def startsWith_def ds)
  have "\<not> isWhiteSpace (CHR ''-'')" by (simp add: isWhiteSpace_def)
  then show "parseInt10 (CHR ''-'' # ds @ rest) = Some (- digitsValue 10 ds)"
    using tw assms(1)
    by (simp add: parseInt10_def parseIntRadix_def Let_def startsWith_def)
qed

lemma parseInt10_showInt:
  assumes "rest = [] \<or> \<not> isDigit (hd rest)"
  shows "parseInt10 (showInt n @ rest) = Some n"
proof (cases "n < 0")
  case True
  then show ?thesis
    using parseInt10_digits(2) [OF _ _ assms, of "showNat (nat (- n))"] showNat_digits [of "nat (- n)"]
    by (simp add: showInt_def digitsValue_showNat)
next
  case False
  then show ?thesis
    using parseInt10_digits(1) [OF _ _ assms, of "showNat (nat n)"] showNat_digits [of "nat n"]
    by (simp add: showInt_def digitsValue_showNat)
qed

lemma listarPersonajes_calls:
  "\<not> tablaFalta tabla \<Longrightarrow> snd (listarPersonajes tabla scan limite) = [limite]"
  by (auto simp: listarPersonajes_def Let_def split: sum.splits option.splits)

lemma handler_listar_calls:
  "snd (handler_listarPersonajes nodeEnv tabla scan ordenar q)
     = snd (listarPersonajes tabla scan (resolverLimite q))"
  by (auto simp: handler_listarPersonajes_def Let_def split: sum.splits)

lemma resolverLimite_parsed:
  "resolverLimite q =
     (case parseInt10 (limiteSolicitado q) of
        None \<Rightarrow> 50
      | Some n \<Rightarrow> if n \<le> 0 then 50 else if n \<le> 100 then n else 100)"
  by (auto simp: resolverLimite_def Let_def split: option.splits)

lemma parseInt10_50: "parseInt10 ''50'' = Some 50"
  by code_simp

lemma strOr_empty: "a = None \<or> a = Some [] \<Longrightarrow> strOr a b = b"
  by (auto simp: strOr_def)

lemma strOr_given: "s \<noteq> [] \<Longrightarrow> strOr (Some s) b = s"
  by (simp add: strOr_def)

lemma noLeading_dropWhile: "noLeading P (dropWhile P s)"
  by (induction s) (auto simp: noLeading_def)

lemma dropWhile_noLeading:
  "list_all P ws \<Longrightarrow> noLeading P t \<Longrightarrow> dropWhile P (ws @ t) = t"
  by (induction ws) (auto simp: noLeading_def split: list.splits)

lemma takeWhile_noLeading:
  "list_all P ds \<Longrightarrow> noLeading P rest \<Longrightarrow> takeWhile P (ds @ rest) = ds"
  by (induction ds) (auto simp: noLeading_def split: list.splits)

lemma limiteShape_exists: "\<exists>ws sg ds rest. limiteShape raw ws sg ds rest"
proof -
  define ws where "ws = takeWhile isWhiteSpace raw"
  define t where "t = dropWhile isWhiteSpace raw"
  define sg where "sg = (case t of [] \<Rightarrow> [] | c # cs \<Rightarrow> if isSign c then [c] else [])"
  define u where "u = (case t of [] \<Rightarrow> [] | c # cs \<Rightarrow> if isSign c then cs else t)"
  define ds where "ds = takeWhile isDigit u"
  define rest where "rest = dropWhile isDigit u"
  have raw: "raw = ws @ t" by (simp add: ws_def t_def)
  have t: "t = sg @ u" by (cases t) (auto simp: sg_def u_def)
  have u: "u = ds @ rest" by (simp add: ds_def rest_def)
  have a: "list_all isWhiteSpace ws"
    by (auto simp: ws_def list_all_iff dest: set_takeWhileD)
  have b: "noLeading isWhiteSpace (sg @ ds @ rest)"
    using noLeading_dropWhile [of isWhiteSpace raw] by (simp add: t_def [symmetric] t u)
  have c: "sg = [] \<and> noLeading isSign (ds @ rest) \<or> sg = ''+'' \<or> sg = ''-''"
    by (cases t) (auto simp: sg_def u_def u [symmetric] noLeading_def isSign_def)
  have d: "list_all isDigit ds"
    by (auto simp: ds_def list_all_iff dest: set_takeWhileD)
  have e: "noLeading isDigit rest"
    unfolding rest_def by (rule noLeading_dropWhile)
  have "limiteShape raw ws sg ds rest"
    unfolding limiteShape_def using raw t u a b c d e by simp
  then show ?thesis by blast
qed

lemma digitsValue_nonneg: "0 \<le> digitsValue r ds"
  by (simp add: digitsValue_def)

lemma parseInt10_shape:
  assumes "limiteShape raw ws sg ds rest"
  shows "parseInt10 raw =
     (if ds = [] then None
      else Some (if sg = ''-'' then - digitsValue 10 ds else digitsValue 10 ds))"
proof -
  from assms have raw: "raw = ws @ sg @ ds @ rest"
    and ws: "list_all isWhiteSpace ws" and nl: "noLeading isWhiteSpace (sg @ ds @ rest)"
    and sg: "sg = [] \<and> noLeading isSign (ds @ rest) \<or> sg = ''+'' \<or> sg = ''-''"
    and ds: "list_all isDigit ds" and rest: "noLeading isDigit rest"
    by (simp_all add: limiteShape_def)
  have s0: "dropWhile isWhiteSpace raw = sg @ ds @ rest"
    unfolding raw by (rule dropWhile_noLeading [OF ws nl])
  have tw: "takeWhile isDigit (ds @ rest) = ds"
    by (rule takeWhile_noLeading [OF ds rest])
  from sg show ?thesis
  proof (elim disjE conjE)
    assume e: "sg = []" and n: "noLeading isSign (ds @ rest)"
    have "\<not> startsWith (ds @ rest) ''-''" "\<not> startsWith (ds @ rest) ''+''"
      using n by (cases "ds @ rest"; simp add: startsWith_def noLeading_def isSign_def)+
    then show ?thesis
      using tw by (simp add: parseInt10_def parseIntRadix_def Let_def s0 e)
  next
    assume e: "sg = ''+''"
    show ?thesis
      using tw by (simp add: parseInt10_def parseIntRadix_def Let_def s0 e startsWith_def)
  next
    assume e: "sg = ''-''"
    show ?thesis
      using tw by (simp add: parseInt10_def parseIntRadix_def Let_def s0 e startsWith_def)
  qed
qed

lemma resolverLimite_shape:
  assumes "limiteShape (limiteSolicitado q) ws sg ds rest"
  shows "resolverLimite q =
     (if ds = [] \<or> sg = ''-'' \<or> digitsValue 10 ds = 0 then 50
      else if digitsValue 10 ds \<le> 100 then digitsValue 10 ds else 100)"
  using digitsValue_nonneg [of 10 ds]
  by (auto simp: resolverLimite_parsed parseInt10_shape [OF assms])

lemma digitsValue_examples:
  "digitsValue 10 ''007'' = 7" "digitsValue 10 ''200'' = 200"
  by code_simp+

lemma listarPersonajes_Inr:
  "fst (listarPersonajes tabla scan limite) = Inr ps \<longleftrightarrow>
     \<not> tablaFalta tabla \<and> scan limite = Inr (Some ps)"
  by (auto simp: listarPersonajes_def Let_def split: sum.splits option.splits)

lemma listar_ok:
  assumes "fst (listarPersonajes tabla scan (resolverLimite q)) = Inr ps"
  shows "fst (handler_listarPersonajes nodeEnv tabla scan ordenar q) =
     (if ps = [] then
        buildResponse 200
          [(''exito'', JsonBool True),
           (''mensaje'', JsonStr ''No hay personajes almacenados''),
           (''total'', JsonNum 0),
           (''datos'', JsonArr [])]
      else
        buildResponse 200
          [(''exito'', JsonBool True),
           (''mensaje'', JsonStr ''Personajes obtenidos exitosamente''),
           (''total'', JsonNum (int (length (ordenar ps)))),
           (''limite'', JsonNum (resolverLimite q)),
           (''datos'', JsonArr (map JsonObj (ordenar ps)))])"
  using assms by (simp add: handler_listarPersonajes_def Let_def)

lemma errorConsulta_status: "statusCode (errorConsulta nodeEnv e) \<noteq> 200"
  by (simp add: errorConsulta_def buildResponse_def)

lemma listar_200_ok:
  assumes "statusCode (fst (handler_listarPersonajes nodeEnv tabla scan ordenar q)) = 200"
  shows "\<exists>ps. fst (listarPersonajes tabla scan (resolverLimite q)) = Inr ps"
proof (cases "fst (listarPersonajes tabla scan (resolverLimite q))")
  case (Inl e)
  then have "fst (handler_listarPersonajes nodeEnv tabla scan ordenar q) = errorConsulta nodeEnv e"
    by (simp add: handler_listarPersonajes_def Let_def)
  with assms errorConsulta_status show ?thesis by metis
next
  case (Inr ps)
  then show ?thesis by blast
qed

text \<open>
  C5 (as amended). A 200 response of the list handler comes from a successful scan
  of the configured table. Its body has \<open>exito\<close>, \<open>mensaje\<close>, \<open>total\<close> and \<open>datos\<close>.
  When the scan returned records, the body is exactly \<open>exito\<close>, the message
  "Personajes obtenidos exitosamente", \<open>total\<close> the number of records in \<open>datos\<close>,
  \<open>limite\<close> the resolved limit and \<open>datos\<close> the sorted records; \<open>total\<close> is the number
  of records scanned when sorting keeps their number. When the scan returned none,
  the body is exactly \<open>exito\<close>, the message "No hay personajes almacenados", a total
  of 0 and empty \<open>datos\<close>, with no \<open>limite\<close>.
\<close>

theorem listar_200_body:
  assumes "statusCode (fst (handler_listarPersonajes nodeEnv tabla scan ordenar q)) = 200"
  shows "\<exists>ps. fst (listarPersonajes tabla scan (resolverLimite q)) = Inr ps \<and>
     \<not> tablaFalta tabla \<and> scan (resolverLimite q) = Inr (Some ps) \<and>
     (let b = body (fst (handler_listarPersonajes nodeEnv tabla scan ordenar q)) in
      map_of b ''exito'' = Some (JsonBool True) \<and>
      (\<exists>m. map_of b ''mensaje'' = Some (JsonStr m)) \<and>
      (\<exists>n. map_of b ''total'' = Some (JsonNum n)) \<and>
      (\<exists>d. map_of b ''datos'' = Some (JsonArr d)) \<and>
      (ps \<noteq> [] \<longrightarrow> map_of b ''limite'' = Some (JsonNum (resolverLimite q))) \<and>
      (ps = [] \<longrightarrow> map_of b ''limite'' = None \<and>
         map_of b ''mensaje'' = Some (JsonStr ''No hay personajes almacenados'') \<and>
         map_of b ''total'' = Some (JsonNum 0) \<and> map_of b ''datos'' = Some (JsonArr [])) \<and>
      (ps = [] \<longrightarrow>
         b = [(''exito'', JsonBool True),
              (''mensaje'', JsonStr ''No hay personajes almacenados''),
              (''total'', JsonNum 0),
              (''datos'', JsonArr [])]) \<and>
      (ps \<noteq> [] \<longrightarrow>
         b = [(''exito'', JsonBool True),
              (''mensaje'', JsonStr ''Personajes obtenidos exitosamente''),
              (''total'', JsonNum (int (length (ordenar ps)))),
              (''limite'', JsonNum (resolverLimite q)),
              (''datos'', JsonArr (map JsonObj (ordenar ps)))]) \<and>
      (ps \<noteq> [] \<and> length (ordenar ps) = length ps \<longrightarrow>
         map_of b ''total'' = Some (JsonNum (int (length ps)))))"
proof -
  from listar_200_ok [OF assms] obtain ps
    where ps: "fst (listarPersonajes tabla scan (resolverLimite q)) = Inr ps" by blast
  have st: "\<not> tablaFalta tabla \<and> scan (resolverLimite q) = Inr (Some ps)"
    using ps by (simp add: listarPersonajes_Inr)
  show ?thesis
    by (rule exI [of _ ps]) (simp add: ps st listar_ok [OF ps] buildResponse_def)
qed

theorem listar_200_body_witness:
  "statusCode (fst (handler_listarPersonajes None (Some ''personajes'')
       (\<lambda>l. Inr (Some [[(''id'', JsonStr ''a1''), (''nombre'', JsonStr ''Yoda'')]])) (\<lambda>xs. xs) None)) = 200 \<and>
   body (fst (handler_listarPersonajes None (Some ''personajes'')
       (\<lambda>l. Inr (Some [[(''id'', JsonStr ''a1''), (''nombre'', JsonStr ''Yoda'')]])) (\<lambda>xs. xs) None))
     = [(''exito'', JsonBool True),
        (''mensaje'', JsonStr ''Personajes obtenidos exitosamente''),
        (''total'', JsonNum 1),
        (''limite'', JsonNum 50),
        (''datos'', JsonArr [JsonObj [(''id'', JsonStr ''a1''), (''nombre'', JsonStr ''Yoda'')]])]"
proof -
  let ?items = "[[(''id'', JsonStr ''a1''), (''nombre'', JsonStr ''Yoda'')]] :: item list"
  let ?scan = "\<lambda>l::int. Inr (Some ?items) :: awsError + item list option"
  let ?h = "handler_listarPersonajes None (Some ''personajes'') ?scan (\<lambda>xs. xs) None"
  have s: "statusCode (fst ?h) = 200"
    by code_simp
  have r: "resolverLimite None = 50"
    by code_simp
  from listar_200_body [OF s] obtain ps where
    sc: "?scan (resolverLimite None) = Inr (Some ps)"
    and b: "ps \<noteq> [] \<longrightarrow> body (fst ?h) =
            [(''exito'', JsonBool True),
              (''mensaje'', JsonStr ''Personajes obtenidos exitosamente''),
              (''total'', JsonNum (int (length ((\<lambda>xs. xs) ps)))),
              (''limite'', JsonNum (resolverLimite None)),
              (''datos'', JsonArr (map JsonObj ((\<lambda>xs. xs) ps)))]"
    unfolding Let_def by blast
  from sc have p: "ps = ?items" by simp
  have e: "body (fst ?h) = [(''exito'', JsonBool True),
        (''mensaje'', JsonStr ''Personajes obtenidos exitosamente''),
        (''total'', JsonNum 1),
        (''limite'', JsonNum 50),
        (''datos'', JsonArr [JsonObj [(''id'', JsonStr ''a1''), (''nombre'', JsonStr ''Yoda'')]])]"
    using b by (simp add: p r)
  show ?thesis
    by (rule conjI [OF s e])
qed

text \<open>C5 as stated fails: the 200 response for zero records has no \<open>limite\<close>.\<close>

theorem listar_empty_counterexample:
  "statusCode (fst (handler_listarPersonajes None (Some ''personajes'') (\<lambda>l. Inr (Some [])) (\<lambda>xs. xs) None)) = 200 \<and>
   map_of (body (fst (handler_listarPersonajes None (Some ''personajes'') (\<lambda>l. Inr (Some [])) (\<lambda>xs. xs) None)))
     ''limite'' = None"
  by code_simp

text \<open>
  C6 (as amended). The text of the page size is the first non-empty of \<open>limite\<close> and
  \<open>limit\<close>, and \<open>50\<close> when both are absent or empty. Every text is white space, an
  optional sign, the digits that follow and a rest; the limit handed to the store is
  50 when there are no digits, when the sign is minus or when the digits denote 0,
  the number the digits denote when it is between 1 and 100, and 100 above. In
  particular, for the decimal numeral of \<open>n\<close> followed by nothing or by text that does
  not start with a digit, it is 50 for \<open>n \<le> 0\<close>, \<open>n\<close> from 1 to 100 and 100 above.
  It always lies between 1 and 100, and the store is queried once, with it.
\<close>

theorem resolverLimite_leading_integer:
  "((paramOf q ''limite'' = None \<or> paramOf q ''limite'' = Some []) \<and>
    (paramOf q ''limit'' = None \<or> paramOf q ''limit'' = Some []) \<longrightarrow> resolverLimite q = 50) \<and>
   (paramOf q ''limite'' = Some s \<and> s \<noteq> [] \<longrightarrow> limiteSolicitado q = s) \<and>
   ((paramOf q ''limite'' = None \<or> paramOf q ''limite'' = Some []) \<and>
    paramOf q ''limit'' = Some s \<and> s \<noteq> [] \<longrightarrow> limiteSolicitado q = s) \<and>
   ((paramOf q ''limite'' = None \<or> paramOf q ''limite'' = Some []) \<and>
    (paramOf q ''limit'' = None \<or> paramOf q ''limit'' = Some []) \<longrightarrow> limiteSolicitado q = ''50'') \<and>
   (\<exists>ws sg ds rest. limiteShape (limiteSolicitado q) ws sg ds rest) \<and>
   (limiteShape (limiteSolicitado q) ws sg ds rest \<longrightarrow>
      resolverLimite q =
        (if ds = [] \<or> sg = ''-'' \<or> digitsValue 10 ds = 0 then 50
         else if digitsValue 10 ds \<le> 100 then digitsValue 10 ds else 100)) \<and>
   (parseInt10 (limiteSolicitado q) = None \<longrightarrow> resolverLimite q = 50) \<and>
   (limiteSolicitado q = showInt n @ rest' \<and> (rest' = [] \<or> \<not> isDigit (hd rest')) \<longrightarrow>
      resolverLimite q = (if n \<le> 0 then 50 else if n \<le> 100 then n else 100)) \<and>
   digitsValue 10 (showNat m) = int m \<and>
   1 \<le> resolverLimite q \<and> resolverLimite q \<le> 100 \<and>
   (\<not> tablaFalta tabla \<longrightarrow>
      snd (handler_listarPersonajes nodeEnv tabla scan ordenar q) = [resolverLimite q]) \<and>
   resolverLimite (Some [(''limite'', ''200'')]) = 100 \<and>
   resolverLimite (Some [(''limite'', ''abc'')]) = 50 \<and>
   resolverLimite (Some [(''limite'', ''0'')]) = 50 \<and>
   resolverLimite (Some [(''limite'', ''-5'')]) = 50"
proof -
  have none: "limiteSolicitado q = ''50''"
    if "paramOf q ''limite'' = None \<or> paramOf q ''limite'' = Some []"
      and "paramOf q ''limit'' = None \<or> paramOf q ''limit'' = Some []"
    using that by (simp add: limiteSolicitado_def strOr_empty)
  have absent: "resolverLimite q = 50"
    if "paramOf q ''limite'' = None \<or> paramOf q ''limite'' = Some []"
      and "paramOf q ''limit'' = None \<or> paramOf q ''limit'' = Some []"
    using none [OF that] by (simp add: resolverLimite_parsed parseInt10_50)
  have first: "limiteSolicitado q = s" if "paramOf q ''limite'' = Some s" "s \<noteq> []"
    using that by (simp add: limiteSolicitado_def strOr_given)
  have second: "limiteSolicitado q = s"
    if "paramOf q ''limite'' = None \<or> paramOf q ''limite'' = Some []"
      and "paramOf q ''limit'' = Some s" "s \<noteq> []"
    using that by (auto simp: limiteSolicitado_def strOr_given strOr_empty)
  have ex: "\<exists>ws sg ds rest. limiteShape (limiteSolicitado q) ws sg ds rest"
    by (rule limiteShape_exists)
  have shape: "resolverLimite q =
        (if ds = [] \<or> sg = ''-'' \<or> digitsValue 10 ds = 0 then 50
         else if digitsValue 10 ds \<le> 100 then digitsValue 10 ds else 100)"
    if "limiteShape (limiteSolicitado q) ws sg ds rest"
    using that by (rule resolverLimite_shape)
  have nan: "resolverLimite q = 50" if "parseInt10 (limiteSolicitado q) = None"
    using that by (simp add: resolverLimite_parsed)
  have lead: "resolverLimite q = (if n \<le> 0 then 50 else if n \<le> 100 then n else 100)"
    if "limiteSolicitado q = showInt n @ rest'" "rest' = [] \<or> \<not> isDigit (hd rest')"
    using that parseInt10_showInt [OF that(2), of n] by (simp add: resolverLimite_parsed)
  have dv: "digitsValue 10 (showNat m) = int m"
    by (rule digitsValue_showNat)
  have range: "1 \<le> resolverLimite q \<and> resolverLimite q \<le> 100"
    by (auto simp: resolverLimite_parsed split: option.splits)
  have call: "snd (handler_listarPersonajes nodeEnv tabla scan ordenar q) = [resolverLimite q]"
    if "\<not> tablaFalta tabla"
    using that by (simp add: handler_listar_calls listarPersonajes_calls)
  have exs: "resolverLimite (Some [(''limite'', ''200'')]) = 100"
    "resolverLimite (Some [(''limite'', ''abc'')]) = 50"
    "resolverLimite (Some [(''limite'', ''0'')]) = 50"
    "resolverLimite (Some [(''limite'', ''-5'')]) = 50"
    by code_simp+
  show ?thesis
    by (intro conjI impI; (elim conjE)?; (rule absent first second none ex shape nan lead dv call exs | simp add: range); assumption?)
qed


theorem resolverLimite_leading_integer_witness:
  "resolverLimite None = 50 \<and>
   limiteSolicitado None = ''50'' \<and>
   limiteSolicitado (Some [(''limite'', ''42abc'')]) = ''42abc'' \<and>
   limiteSolicitado (Some [(''limite'', []), (''limit'', ''20'')]) = ''20'' \<and>
   limiteShape (limiteSolicitado (Some [(''limite'', '' +007x'')])) '' '' ''+'' ''007'' ''x'' \<and>
   resolverLimite (Some [(''limite'', '' +007x'')]) = 7 \<and>
   resolverLimite (Some [(''limite'', ''abc'')]) = 50 \<and>
   resolverLimite (Some [(''limite'', ''42abc'')]) = 42 \<and>
   snd (handler_listarPersonajes None (Some ''personajes'') (\<lambda>l. Inr (Some [])) (\<lambda>xs. xs)
          (Some [(''limite'', ''42abc'')])) = [42]"
proof -
  let ?q = "Some [(''limite'', ''42abc'')]"
  let ?q2 = "Some [(''limite'', []), (''limit'', ''20'')]"
  let ?q3 = "Some [(''limite'', ''abc'')]"
  let ?q4 = "Some [(''limite'', '' +007x'')]"
  have a: "(paramOf None ''limite'' = None \<or> paramOf None ''limite'' = Some []) \<and>
      (paramOf None ''limit'' = None \<or> paramOf None ''limit'' = Some [])"
    by (simp add: paramOf_def)
  have b: "paramOf ?q ''limite'' = Some ''42abc'' \<and> ''42abc'' \<noteq> []"
    by (simp add: paramOf_def)
  have c: "(paramOf ?q2 ''limite'' = None \<or> paramOf ?q2 ''limite'' = Some []) \<and>
      paramOf ?q2 ''limit'' = Some ''20'' \<and> ''20'' \<noteq> []"
    by (simp add: paramOf_def)
  have d: "parseInt10 (limiteSolicitado ?q3) = None"
    by code_simp
  have e: "limiteSolicitado ?q = showInt 42 @ ''abc'' \<and> (''abc'' = [] \<or> \<not> isDigit (hd ''abc''))"
    by code_simp
  have f: "\<not> tablaFalta (Some ''personajes'')"
    by (simp add: tablaFalta_def)
  have sh: "limiteShape (limiteSolicitado ?q4) '' '' ''+'' ''007'' ''x''"
    by code_simp
  have dv: "digitsValue 10 ''007'' = 7"
    by code_simp
  have r0: "resolverLimite None = 50" "limiteSolicitado None = ''50''"
    using a resolverLimite_leading_integer [of None "[]" "[]" "[]" "[]" "[]" 0 "[]" 0] by blast+
  have r1: "limiteSolicitado ?q = ''42abc''"
    using b resolverLimite_leading_integer [of ?q "''42abc''" "[]" "[]" "[]" "[]" 0 "[]" 0] by blast
  have r2: "limiteSolicitado ?q2 = ''20''"
    using c resolverLimite_leading_integer [of ?q2 "''20''" "[]" "[]" "[]" "[]" 0 "[]" 0] by blast
  have r3: "resolverLimite ?q3 = 50"
    using d resolverLimite_leading_integer [of ?q3 "[]" "[]" "[]" "[]" "[]" 0 "[]" 0] by blast
  have r4: "resolverLimite ?q4 = 7"
    using sh dv resolverLimite_leading_integer [of ?q4 "[]" "'' ''" "''+''" "''007''" "''x''" 0 "[]" 0]
    by simp
  have r5: "resolverLimite ?q = 42"
    using e resolverLimite_leading_integer [of ?q "[]" "[]" "[]" "[]" "[]" 42 "''abc''" 0] by simp
  have r6: "snd (handler_listarPersonajes None (Some ''personajes'') (\<lambda>l. Inr (Some [])) (\<lambda>xs. xs) ?q) = [42]"
    using f r5 resolverLimite_leading_integer [of ?q "[]" "[]" "[]" "[]" "[]" 0 "[]" 0
        "Some ''personajes''" None "\<lambda>l. Inr (Some [])" "\<lambda>xs. xs"]
    by simp
  show ?thesis
    by (rule conjI [OF r0(1) conjI [OF r0(2) conjI [OF r1 conjI [OF r2 conjI [OF sh
          conjI [OF r4 conjI [OF r3 conjI [OF r5 r6]]]]]]]])
qed

text \<open>
  C6 as stated fails: \<open>12abc\<close> is not numeric, and the store is queried with 12, not
  with 50.
\<close>

theorem limite_non_numeric_counterexample:
  "\<not> isStrNumeric ''12abc'' \<and>
   snd (handler_listarPersonajes None (Some ''personajes'') (\<lambda>l. Inr (Some [])) (\<lambda>xs. xs)
          (Some [(''limite'', ''12abc'')])) = [12]"
  by code_simp


section \<open>The create handler\<close>

lemma map_of_setCampo: "map_of (setCampo p k v) = (map_of p)(k \<mapsto> v)"
  by (simp add: setCampo_def update_conv')

lemma foldl_trimEntry_cases:
  "(\<exists>s. map_of (foldl trimEntry acc kvs) k = Some (JsonStr s)) \<or>
   map_of (foldl trimEntry acc kvs) k = map_of acc k"
proof (induction kvs arbitrary: acc)
  case Nil
  show ?case by simp
next
  case (Cons kv kvs)
  obtain k' v' where kv: "kv = (k', v')" by (cases kv)
  have step: "(\<exists>s. map_of (trimEntry acc kv) k = Some (JsonStr s)) \<or>
      map_of (trimEntry acc kv) k = map_of acc k"
    by (cases v') (auto simp: kv trimEntry_def map_of_setCampo)
  from Cons.IH [of "trimEntry acc kv"] step show ?case
    by auto
qed

lemma validarGenero_Inr:
  "validarGenero datos = Inr errs \<Longrightarrow>
   \<not> jsonTruthy (map_of datos ''genero'') \<or> isString (map_of datos ''genero'')"
  by (auto simp: validarGenero_def split: if_splits option.splits json.splits)

lemma validarTipos_Inr_genero:
  "validarTiposDeDatos datos = Inr errs \<Longrightarrow> \<exists>e5. validarGenero datos = Inr e5"
  by (auto simp: validarTiposDeDatos_def Let_def split: sum.splits)

lemma isString_cases: "isString v \<longleftrightarrow> (\<exists>s. v = Some (JsonStr s))"
  by (cases v rule: isString.cases) auto

lemma sanitizarPersonaje_ok:
  assumes "validarGenero datos = Inr errs"
  shows "\<exists>p. sanitizarPersonaje datos = Inr p"
proof -
  let ?t = "foldl trimEntry datos datos"
  have orig: "\<not> jsonTruthy (map_of datos ''genero'') \<or> isString (map_of datos ''genero'')"
    by (rule validarGenero_Inr [OF assms])
  have "\<not> jsonTruthy (map_of ?t ''genero'') \<or> isString (map_of ?t ''genero'')"
    using foldl_trimEntry_cases [of datos datos "''genero''"] orig
    by (auto simp: isString_cases)
  then show ?thesis
    by (auto simp: sanitizarPersonaje_def Let_def isString_cases)
qed

lemma guardarPersonaje_configured:
  "\<not> tablaFalta tabla \<Longrightarrow> snd (guardarPersonaje tabla put p) = [p]"
  "\<not> tablaFalta tabla \<Longrightarrow> put p = None \<Longrightarrow> fst (guardarPersonaje tabla put p) = Inr p"
  by (auto simp: guardarPersonaje_def Let_def split: option.splits sum.splits)

text \<open>
  C9. When the body passes the three validations and the table is configured, the
  handler hands exactly one record to the store; whatever the body held under \<open>id\<close>,
  \<open>creado\<close> and \<open>actualizado\<close>, that record has the minted identifier as \<open>id\<close> and the
  stamped time as \<open>creado\<close> and as \<open>actualizado\<close>; and when the store accepts it, the
  response is 201 with that record as \<open>datos\<close>.
\<close>

theorem crearEntidad_identity_assigned:
  assumes "validarCuerpoRequest parse eventBody = CuerpoValido datos"
    and "validarCamposObligatorios datos = []"
    and "validarTiposDeDatos datos = Inr []"
    and "\<not> tablaFalta tabla"
  shows "\<exists>p. snd (handler_crearEntidad nodeEnv tabla put parse idUnico timestamp eventBody) = [p] \<and>
     map_of p ''id'' = Some (JsonStr idUnico) \<and>
     map_of p ''creado'' = Some (JsonStr timestamp) \<and>
     map_of p ''actualizado'' = Some (JsonStr timestamp) \<and>
     (put p = None \<longrightarrow>
        fst (handler_crearEntidad nodeEnv tabla put parse idUnico timestamp eventBody) =
          buildResponse 201
            [(''exito'', JsonBool True),
             (''mensaje'', JsonStr ''Personaje creado exitosamente''),
             (''datos'', JsonObj p)])"
proof -
  from validarTipos_Inr_genero [OF assms(3)] obtain e5 where "validarGenero datos = Inr e5"
    by blast
  from sanitizarPersonaje_ok [OF this] obtain s where s: "sanitizarPersonaje datos = Inr s"
    by blast
  let ?p = "setCampo (setCampo (setCampo s ''id'' (JsonStr idUnico))
      ''creado'' (JsonStr timestamp)) ''actualizado'' (JsonStr timestamp)"
  have h: "handler_crearEntidad nodeEnv tabla put parse idUnico timestamp eventBody =
      (case fst (guardarPersonaje tabla put ?p) of
         Inl e \<Rightarrow> (errorCrear nodeEnv e, snd (guardarPersonaje tabla put ?p))
       | Inr personajeGuardado \<Rightarrow>
           (buildResponse 201
              [(''exito'', JsonBool True),
               (''mensaje'', JsonStr ''Personaje creado exitosamente''),
               (''datos'', JsonObj personajeGuardado)], snd (guardarPersonaje tabla put ?p)))"
    by (simp add: handler_crearEntidad_def assms(1,2,3) s Let_def)
  have g: "snd (guardarPersonaje tabla put ?p) = [?p]"
    by (rule guardarPersonaje_configured(1) [OF assms(4)])
  have calls: "snd (handler_crearEntidad nodeEnv tabla put parse idUnico timestamp eventBody) = [?p]"
  proof (cases "fst (guardarPersonaje tabla put ?p)")
    case (Inl e)
    then show ?thesis by (simp add: h g)
  next
    case (Inr x)
    then show ?thesis by (simp add: h g)
  qed
  have fields: "map_of ?p ''id'' = Some (JsonStr idUnico)"
    "map_of ?p ''creado'' = Some (JsonStr timestamp)"
    "map_of ?p ''actualizado'' = Some (JsonStr timestamp)"
    by (simp_all add: map_of_setCampo)
  have created: "fst (handler_crearEntidad nodeEnv tabla put parse idUnico timestamp eventBody) =
          buildResponse 201
            [(''exito'', JsonBool True),
             (''mensaje'', JsonStr ''Personaje creado exitosamente''),
             (''datos'', JsonObj ?p)]" if "put ?p = None"
  proof -
    have "fst (guardarPersonaje tabla put ?p) = Inr ?p"
      using assms(4) that by (rule guardarPersonaje_configured(2))
    then show ?thesis by (simp add: h)
  qed
  show ?thesis
    by (rule exI [of _ ?p]) (use calls fields created in blast)
qed


theorem crearEntidad_identity_assigned_witness:
  "validarCuerpoRequest
       (\<lambda>b. Some (JsonObj [(''id'', JsonStr ''mine''), (''nombre'', JsonStr '' Yoda ''),
                             (''creado'', JsonStr ''1999'')]))
       (Some ''{}'')
     = CuerpoValido [(''id'', JsonStr ''mine''), (''nombre'', JsonStr '' Yoda ''),
                     (''creado'', JsonStr ''1999'')] \<and>
   validarCamposObligatorios [(''id'', JsonStr ''mine''), (''nombre'', JsonStr '' Yoda ''),
                              (''creado'', JsonStr ''1999'')] = [] \<and>
   validarTiposDeDatos [(''id'', JsonStr ''mine''), (''nombre'', JsonStr '' Yoda ''),
                        (''creado'', JsonStr ''1999'')] = Inr [] \<and>
   \<not> tablaFalta (Some ''personajes'') \<and>
   (\<exists>p. snd (handler_crearEntidad None (Some ''personajes'') (\<lambda>p. None)
                (\<lambda>b. Some (JsonObj [(''id'', JsonStr ''mine''), (''nombre'', JsonStr '' Yoda ''),
                                      (''creado'', JsonStr ''1999'')]))
                ''0b0e7a2c'' ''2026-01-08T12:00:00.000Z'' (Some ''{}'')) = [p] \<and>
        map_of p ''id'' = Some (JsonStr ''0b0e7a2c'') \<and>
        map_of p ''creado'' = Some (JsonStr ''2026-01-08T12:00:00.000Z'') \<and>
        map_of p ''actualizado'' = Some (JsonStr ''2026-01-08T12:00:00.000Z''))"
proof -
  let ?datos = "[(''id'', JsonStr ''mine''), (''nombre'', JsonStr '' Yoda ''), (''creado'', JsonStr ''1999'')]"
  let ?parse = "\<lambda>b::string. Some (JsonObj ?datos)"
  let ?put = "\<lambda>p::item. None :: awsError option"
  have a: "validarCuerpoRequest ?parse (Some ''{}'') = CuerpoValido ?datos"
    by code_simp
  have b: "validarCamposObligatorios ?datos = []"
    by code_simp
  have c: "validarTiposDeDatos ?datos = Inr []"
    by code_simp
  have d: "\<not> tablaFalta (Some ''personajes'')"
    by code_simp
  from crearEntidad_identity_assigned [OF a b c d, of None ?put "''0b0e7a2c''" "''2026-01-08T12:00:00.000Z''"]
  have e: "\<exists>p. snd (handler_crearEntidad None (Some ''personajes'') ?put ?parse
                ''0b0e7a2c'' ''2026-01-08T12:00:00.000Z'' (Some ''{}'')) = [p] \<and>
        map_of p ''id'' = Some (JsonStr ''0b0e7a2c'') \<and>
        map_of p ''creado'' = Some (JsonStr ''2026-01-08T12:00:00.000Z'') \<and>
        map_of p ''actualizado'' = Some (JsonStr ''2026-01-08T12:00:00.000Z'')"
    by blast
  show ?thesis
    by (rule conjI [OF a conjI [OF b conjI [OF c conjI [OF d e]]]])
qed

lemma validarGenero_ninguno:
  "map_of datos ''genero'' = Some (JsonStr ''ninguno'') \<Longrightarrow> validarGenero datos = Inr [errorGenero]"
proof -
  assume g: "map_of datos ''genero'' = Some (JsonStr ''ninguno'')"
  have "toLowerCase ''ninguno'' \<notin> set generosValidos"
    by code_simp
  then show ?thesis
    by (simp add: validarGenero_def g)
qed

lemma validarTipos_errores_genero:
  "validarGenero datos = Inr e5 \<Longrightarrow> validarTiposDeDatos datos = Inr errs \<Longrightarrow> set e5 \<subseteq> set errs"
  by (auto simp: validarTiposDeDatos_def Let_def split: sum.splits)

lemma trim_nonempty: "trim s \<noteq> [] \<Longrightarrow> s \<noteq> []"
  by (auto simp: trim_def)

lemma validar_dos_campos:
  assumes "trim nombre \<noteq> []"
  shows "validarCamposObligatorios [(''nombre'', JsonStr nombre), (''genero'', JsonStr ''ninguno'')] = []"
    and "validarTiposDeDatos [(''nombre'', JsonStr nombre), (''genero'', JsonStr ''ninguno'')] = Inr [errorGenero]"
proof -
  let ?d = "[(''nombre'', JsonStr nombre), (''genero'', JsonStr ''ninguno'')]"
  show "validarCamposObligatorios ?d = []"
    using assms trim_nonempty [OF assms] by (simp add: validarCamposObligatorios_def campoFalta_def)
  have g: "validarGenero ?d = Inr [errorGenero]"
    by (rule validarGenero_ninguno) simp
  have n: "validarNumerico ?d ''altura'' = Inr []" "validarNumerico ?d ''masa'' = Inr []"
    by (simp_all add: validarNumerico_def)
  show "validarTiposDeDatos ?d = Inr [errorGenero]"
    by (simp add: validarTiposDeDatos_def g n camposString_def camposArray_def)
qed

text \<open>
  C10. \<open>translateValue('none')\<close> is \<open>'ninguno'\<close>, which is none of the five accepted
  gender values. For every record whose \<open>genero\<close> is \<open>'ninguno'\<close> the gender check
  reports its message, so \<open>validarTiposDeDatos\<close> never accepts the record and every
  list of violations it returns holds that message. A request with a valid \<open>nombre\<close>
  and \<open>genero\<close> \<open>'ninguno'\<close> is answered 400 with that message, and nothing is stored.
\<close>

theorem ninguno_rejected:
  "translateValue (JStr ''none'') = JStr ''ninguno'' \<and>
   toLowerCase ''ninguno'' \<notin> set generosValidos \<and>
   (map_of datos ''genero'' = Some (JsonStr ''ninguno'') \<longrightarrow>
      validarGenero datos = Inr [errorGenero] \<and>
      validarTiposDeDatos datos \<noteq> Inr [] \<and>
      (\<forall>errs. validarTiposDeDatos datos = Inr errs \<longrightarrow> errorGenero \<in> set errs)) \<and>
   (trim nombre \<noteq> [] \<and> b \<noteq> [] \<and>
    parse b = Some (JsonObj [(''nombre'', JsonStr nombre), (''genero'', JsonStr ''ninguno'')]) \<longrightarrow>
      handler_crearEntidad nodeEnv tabla put parse idUnico timestamp (Some b) =
        (buildResponse 400
           [(''error'', JsonStr ''Bad Request''),
            (''mensaje'', JsonStr (''Errores de validaci'' @ [CHR 0xF3] @ ''n en los datos proporcionados'')),
            (''errores'', JsonArr [JsonStr errorGenero])], []))"
proof -
  have t: "translateValue (JStr ''none'') = JStr ''ninguno''"
    by code_simp
  have n: "toLowerCase ''ninguno'' \<notin> set generosValidos"
    by code_simp
  have v: "validarGenero datos = Inr [errorGenero] \<and>
      validarTiposDeDatos datos \<noteq> Inr [] \<and>
      (\<forall>errs. validarTiposDeDatos datos = Inr errs \<longrightarrow> errorGenero \<in> set errs)"
    if g: "map_of datos ''genero'' = Some (JsonStr ''ninguno'')"
  proof -
    have vg: "validarGenero datos = Inr [errorGenero]"
      by (rule validarGenero_ninguno [OF g])
    have "errorGenero \<in> set errs" if "validarTiposDeDatos datos = Inr errs" for errs
      using validarTipos_errores_genero [OF vg that] by simp
    then show ?thesis using vg by auto
  qed
  have h: "handler_crearEntidad nodeEnv tabla put parse idUnico timestamp (Some b) =
        (buildResponse 400
           [(''error'', JsonStr ''Bad Request''),
            (''mensaje'', JsonStr (''Errores de validaci'' @ [CHR 0xF3] @ ''n en los datos proporcionados'')),
            (''errores'', JsonArr [JsonStr errorGenero])], [])"
    if "trim nombre \<noteq> []" "b \<noteq> []"
      "parse b = Some (JsonObj [(''nombre'', JsonStr nombre), (''genero'', JsonStr ''ninguno'')])"
  proof -
    have c: "validarCuerpoRequest parse (Some b) =
        CuerpoValido [(''nombre'', JsonStr nombre), (''genero'', JsonStr ''ninguno'')]"
      using that(2,3) by (simp add: validarCuerpoRequest_def)
    show ?thesis
      by (simp add: handler_crearEntidad_def c validar_dos_campos [OF that(1)] Let_def)
  qed
  show ?thesis
    using t n v h by blast
qed

theorem ninguno_rejected_witness:
  "map_of [(''nombre'', JsonStr ''Yoda''), (''genero'', JsonStr ''ninguno'')] ''genero''
     = Some (JsonStr ''ninguno'') \<and>
   validarTiposDeDatos [(''nombre'', JsonStr ''Yoda''), (''genero'', JsonStr ''ninguno'')]
     = Inr [errorGenero] \<and>
   errorGenero \<in> set [errorGenero] \<and>
   trim ''Yoda'' \<noteq> [] \<and> ''{}'' \<noteq> [] \<and>
   fst (handler_crearEntidad None (Some ''personajes'') (\<lambda>p. None)
          (\<lambda>b. Some (JsonObj [(''nombre'', JsonStr ''Yoda''), (''genero'', JsonStr ''ninguno'')]))
          ''0b0e7a2c'' ''2026-01-08T12:00:00.000Z'' (Some ''{}''))
     = buildResponse 400
           [(''error'', JsonStr ''Bad Request''),
            (''mensaje'', JsonStr (''Errores de validaci'' @ [CHR 0xF3] @ ''n en los datos proporcionados'')),
            (''errores'', JsonArr [JsonStr errorGenero])]"
proof -
  let ?d = "[(''nombre'', JsonStr ''Yoda''), (''genero'', JsonStr ''ninguno'')]"
  let ?parse = "\<lambda>b::string. Some (JsonObj ?d)"
  let ?put = "\<lambda>p::item. None :: awsError option"
  have a: "map_of ?d ''genero'' = Some (JsonStr ''ninguno'')"
    by simp
  have b: "trim ''Yoda'' \<noteq> []"
    by code_simp
  have c: "''{}'' \<noteq> []"
    by simp
  have d: "validarTiposDeDatos ?d = Inr [errorGenero]"
    by (rule validar_dos_campos(2) [OF b])
  have e: "errorGenero \<in> set [errorGenero]"
    using a d ninguno_rejected [of ?d] by blast
  have f: "handler_crearEntidad None (Some ''personajes'') ?put ?parse
          ''0b0e7a2c'' ''2026-01-08T12:00:00.000Z'' (Some ''{}'')
     = (buildResponse 400
           [(''error'', JsonStr ''Bad Request''),
            (''mensaje'', JsonStr (''Errores de validaci'' @ [CHR 0xF3] @ ''n en los datos proporcionados'')),
            (''errores'', JsonArr [JsonStr errorGenero])], [])"
    using b c ninguno_rejected [of ?d "''Yoda''" "''{}''" ?parse None "Some ''personajes''" ?put "''0b0e7a2c''" "''2026-01-08T12:00:00.000Z''"]
    by blast
  have g: "fst (handler_crearEntidad None (Some ''personajes'') ?put ?parse
          ''0b0e7a2c'' ''2026-01-08T12:00:00.000Z'' (Some ''{}''))
     = buildResponse 400
           [(''error'', JsonStr ''Bad Request''),
            (''mensaje'', JsonStr (''Errores de validaci'' @ [CHR 0xF3] @ ''n en los datos proporcionados'')),
            (''errores'', JsonArr [JsonStr errorGenero])]"
    by (simp only: f fst_conv)
  show ?thesis
    by (rule conjI [OF a conjI [OF d conjI [OF e conjI [OF b conjI [OF c g]]]]])
qed

lemma string_field_collected:
  assumes "campo \<in> set camposString" "map_of datos campo = Some v" "\<not> isString (Some v)"
    and "validarTiposDeDatos datos = Inr errs"
  shows "errorCadena campo \<in> set errs"
proof -
  let ?f = "\<lambda>campo. if map_of datos campo \<noteq> None \<and> \<not> isString (map_of datos campo)
                 then [errorCadena campo] else []"
  have "errorCadena campo \<in> set (?f campo)"
    using assms(2,3) by simp
  then have "errorCadena campo \<in> set (concat (map ?f camposString))"
    using assms(1) by auto
  moreover obtain rest where "errs = concat (map ?f camposString) @ rest"
    using assms(4) by (auto simp: validarTiposDeDatos_def Let_def split: sum.splits)
  ultimately show ?thesis by simp
qed

lemma genero_non_string_throws:
  assumes "jsonTruthy (map_of datos ''genero'')" "\<not> isString (map_of datos ''genero'')"
  shows "\<exists>e. validarTiposDeDatos datos = Inl e"
proof -
  have "validarGenero datos = Inl (TypeError ''personaje.genero.toLowerCase is not a function'')"
    using assms by (auto simp: validarGenero_def isString_cases split: option.splits json.splits)
  then show ?thesis
    by (auto simp: validarTiposDeDatos_def Let_def split: sum.splits)
qed

text \<open>
  C3. The body \<open>{nombre:'Test', genero:['masculino']}\<close> passes the required-field
  check. Its \<open>genero\<close> is an array, and the gender check calls \<open>toLowerCase\<close> on it:
  \<open>validarTiposDeDatos\<close> throws instead of returning its list of violations, and the
  handler answers 500 instead of 400.
\<close>

theorem genero_array_internal_error:
  "validarCamposObligatorios [(''nombre'', JsonStr ''Test''), (''genero'', JsonArr [JsonStr ''masculino''])] = [] \<and>
   validarTiposDeDatos [(''nombre'', JsonStr ''Test''), (''genero'', JsonArr [JsonStr ''masculino''])]
     = Inl (TypeError ''personaje.genero.toLowerCase is not a function'') \<and>
   handler_crearEntidad nodeEnv tabla put
       (\<lambda>b. Some (JsonObj [(''nombre'', JsonStr ''Test''), (''genero'', JsonArr [JsonStr ''masculino''])]))
       idUnico timestamp (Some ''{...}'')
     = (buildResponse 500
          [(''error'', JsonStr ''Internal Server Error''),
           (''mensaje'', JsonStr (''Ocurri'' @ [CHR 0xF3] @ '' un error al crear el personaje'')),
           (''detalles'', detallesError nodeEnv (TypeError ''personaje.genero.toLowerCase is not a function'')
                            ''Error interno del servidor'')], [])"
proof -
  let ?d = "[(''nombre'', JsonStr ''Test''), (''genero'', JsonArr [JsonStr ''masculino''])]"
  let ?e = "TypeError ''personaje.genero.toLowerCase is not a function''"
  have a: "validarCamposObligatorios ?d = []"
    by code_simp
  have b: "validarTiposDeDatos ?d = Inl ?e"
    by code_simp
  have c: "validarCuerpoRequest (\<lambda>b. Some (JsonObj ?d)) (Some ''{...}'') = CuerpoValido ?d"
    by (simp add: validarCuerpoRequest_def)
  have "\<not> strIncludes (errorMessage ?e) ''Ya existe''"
    by code_simp
  then have d: "errorCrear nodeEnv ?e = buildResponse 500
          [(''error'', JsonStr ''Internal Server Error''),
           (''mensaje'', JsonStr (''Ocurri'' @ [CHR 0xF3] @ '' un error al crear el personaje'')),
           (''detalles'', detallesError nodeEnv ?e ''Error interno del servidor'')]"
    by (simp add: errorCrear_def)
  have h: "handler_crearEntidad nodeEnv tabla put (\<lambda>b. Some (JsonObj ?d)) idUnico timestamp (Some ''{...}'')
      = (errorCrear nodeEnv ?e, [])"
    by (simp add: handler_crearEntidad_def a b c)
  show ?thesis
    using a b h d by simp
qed

section \<open>The get handler of the store\<close>

lemma strIncludes_DynamoDB: "strIncludes (''Error al consultar DynamoDB: '' @ m) ''DynamoDB''"
  by (simp add: startsWith_def)

lemma errorConsulta_DynamoDB:
  "errorConsulta nodeEnv (Error (''Error al consultar DynamoDB: '' @ m)) =
     buildResponse 503
       [(''error'', JsonStr ''Service Unavailable''),
        (''mensaje'', JsonStr ''No se pudo acceder a la base de datos''),
        (''detalles'', JsonStr ''Error al consultar DynamoDB'')]"
  using strIncludes_DynamoDB [of m] by (simp add: errorConsulta_def)

lemma obtenerPersonajePorId_error:
  "obtenerPersonajePorId tabla get ident = Inl e \<Longrightarrow>
   \<exists>m. e = Error (''Error al consultar DynamoDB: '' @ m)"
  by (auto simp: obtenerPersonajePorId_def Let_def split: if_splits sum.splits)

lemma obtenerPersonaje_store_failure:
  assumes "paramOf pathParameters ''id'' = Some ident" "trim ident \<noteq> []"
    and "obtenerPersonajePorId tabla get ident = Inl e"
  shows "handler_obtenerPersonaje nodeEnv tabla get pathParameters =
     buildResponse 503
       [(''error'', JsonStr ''Service Unavailable''),
        (''mensaje'', JsonStr ''No se pudo acceder a la base de datos''),
        (''detalles'', JsonStr ''Error al consultar DynamoDB'')]"
proof -
  from obtenerPersonajePorId_error [OF assms(3)] obtain m
    where e: "e = Error (''Error al consultar DynamoDB: '' @ m)" by blast
  have ec: "errorConsulta nodeEnv e =
     buildResponse 503
       [(''error'', JsonStr ''Service Unavailable''),
        (''mensaje'', JsonStr ''No se pudo acceder a la base de datos''),
        (''detalles'', JsonStr ''Error al consultar DynamoDB'')]"
    unfolding e by (rule errorConsulta_DynamoDB)
  have "ident \<noteq> []" using assms(2) by (rule trim_nonempty)
  then show ?thesis
    using assms by (simp add: handler_obtenerPersonaje_def ec)
qed

text \<open>
  C4. With \<open>PERSONAJES_TABLE\<close> absent, the lookup fails with the missing-table
  message wrapped as "Error al consultar DynamoDB: ...". The message still contains
  \<open>variable de entorno\<close>, but the handler finds \<open>DynamoDB\<close> in it first and answers
  503 "Service Unavailable" instead of 500.
\<close>

theorem tabla_ausente_service_unavailable:
  "obtenerPersonajePorId None get ''a1b2c3'' =
     Inl (Error (''Error al consultar DynamoDB: '' @ errorTablaNoConfigurada)) \<and>
   strIncludes errorTablaNoConfigurada ''variable de entorno'' \<and>
   handler_obtenerPersonaje nodeEnv None get (Some [(''id'', ''a1b2c3'')]) =
     buildResponse 503
       [(''error'', JsonStr ''Service Unavailable''),
        (''mensaje'', JsonStr ''No se pudo acceder a la base de datos''),
        (''detalles'', JsonStr ''Error al consultar DynamoDB'')]"
proof -
  have a: "obtenerPersonajePorId None get ''a1b2c3'' =
     Inl (Error (''Error al consultar DynamoDB: '' @ errorTablaNoConfigurada))"
    by (simp add: obtenerPersonajePorId_def tablaFalta_def)
  have b: "strIncludes errorTablaNoConfigurada ''variable de entorno''"
    by code_simp
  have t: "trim ''a1b2c3'' \<noteq> []"
    by code_simp
  have p: "paramOf (Some [(''id'', ''a1b2c3'')]) ''id'' = Some ''a1b2c3''"
    by (simp add: paramOf_def)
  show ?thesis
    using a b obtenerPersonaje_store_failure [OF p t a] by simp
qed

section \<open>The read-through handler\<close>

lemma idInvalido_rejected:
  assumes "paramOf pathParameters ''id'' = Some ident" "ident \<noteq> []" "idInvalido ident"
  shows "handler_getPersonaje nodeEnv getPersonajeById pathParameters =
     (buildResponseSwapi 400
        [(''error'', JStr ''Bad Request''),
         (''mensaje'', JStr (''El ID del personaje debe ser un n'' @ [CHR 0xFA] @ ''mero positivo'')),
         (''idRecibido'', JStr ident)], [])"
  using assms by (simp add: handler_getPersonaje_def)

lemma idInvalido_examples: "idInvalido ''abc''" "idInvalido ''0''" "idInvalido ''-5''"
  by code_simp+

lemma getPersonaje_reaches_client:
  assumes "paramOf pathParameters ''id'' = Some ident" "ident \<noteq> []" "\<not> idInvalido ident"
  shows "snd (handler_getPersonaje nodeEnv getPersonajeById pathParameters) = [ident]"
    and "statusCode (fst (handler_getPersonaje nodeEnv getPersonajeById pathParameters)) \<noteq> 400"
proof -
  show "snd (handler_getPersonaje nodeEnv getPersonajeById pathParameters) = [ident]"
    using assms by (cases "getPersonajeById ident") (simp_all add: handler_getPersonaje_def)
  show "statusCode (fst (handler_getPersonaje nodeEnv getPersonajeById pathParameters)) \<noteq> 400"
    using assms
    by (cases "getPersonajeById ident") (simp_all add: handler_getPersonaje_def buildResponseSwapi_def)
qed

text \<open>
  C8. The identifier \<open>-Infinity\<close> converts to a number, so \<open>isNaN\<close> is false, while
  \<open>parseInt\<close> gives \<open>NaN\<close>, which is not \<open>\<le> 0\<close>: the identifier is not strictly
  positive, yet the handler invokes the client with it and does not answer 400. An
  identifier of one space behaves alike.
\<close>

theorem id_not_positive_reaches_client:
  "isStrNumeric ''-Infinity'' \<and> parseInt ''-Infinity'' = None \<and> \<not> idInvalido ''-Infinity'' \<and>
   snd (handler_getPersonaje nodeEnv getPersonajeById (Some [(''id'', ''-Infinity'')])) = [''-Infinity''] \<and>
   statusCode (fst (handler_getPersonaje nodeEnv getPersonajeById (Some [(''id'', ''-Infinity'')]))) \<noteq> 400 \<and>
   \<not> idInvalido '' '' \<and>
   snd (handler_getPersonaje nodeEnv getPersonajeById (Some [(''id'', '' '')])) = ['' ''] \<and>
   statusCode (fst (handler_getPersonaje nodeEnv getPersonajeById (Some [(''id'', '' '')]))) \<noteq> 400"
proof -
  have a: "isStrNumeric ''-Infinity''" "parseInt ''-Infinity'' = None" "\<not> idInvalido ''-Infinity''"
    "\<not> idInvalido '' ''"
    by code_simp+
  have p: "paramOf (Some [(''id'', ''-Infinity'')]) ''id'' = Some ''-Infinity''"
    "paramOf (Some [(''id'', '' '')]) ''id'' = Some '' ''"
    by (simp_all add: paramOf_def)
  have n: "''-Infinity'' \<noteq> []" "'' '' \<noteq> []"
    by simp_all
  show ?thesis
    using a getPersonaje_reaches_client [OF p(1) n(1) a(3)] getPersonaje_reaches_client [OF p(2) n(2) a(4)]
    by simp
qed

theorem id_not_positive_reaches_client_witness:
  "handler_getPersonaje None
     (\<lambda>i. Inl (Error (''Personaje con ID '' @ i @ '' no encontrado en SWAPI'')))
     (Some [(''id'', ''-Infinity'')])
   = (buildResponseSwapi 404
        [(''error'', JStr ''Not Found''),
         (''mensaje'', JStr ''Personaje con ID -Infinity no encontrado en SWAPI''),
         (''idBuscado'', JStr ''-Infinity'')], [''-Infinity''])"
proof -
  let ?client = "\<lambda>i. Inl (Error (''Personaje con ID '' @ i @ '' no encontrado en SWAPI'')) :: jserror + jsval"
  have v: "\<not> idInvalido ''-Infinity''"
    using id_not_positive_reaches_client [of None ?client] by blast
  have m: "strIncludes ''Personaje con ID -Infinity no encontrado en SWAPI'' ''no encontrado''"
    by code_simp
  show ?thesis
    using v m by (simp add: handler_getPersonaje_def paramOf_def)
qed

end
